theory Spec2Isabelle
  imports Main "HOL-Library.Sublist" "HOL-Library.Word" "HOL-Library.Monad_Syntax"
begin

section \<open>Python values\<close>

text \<open>
  The values that \<^verbatim>\<open>json.loads\<close> and \<^verbatim>\<open>response.json()\<close> produce, and that
  \<^verbatim>\<open>model_dump()\<close> hands to the HTTP layer: \<^verbatim>\<open>None\<close>, \<^verbatim>\<open>bool\<close>, \<^verbatim>\<open>int\<close> (unbounded),
  \<^verbatim>\<open>float\<close> (the 64 bits of the double), \<^verbatim>\<open>str\<close>, \<^verbatim>\<open>list\<close> and \<^verbatim>\<open>dict\<close> with string keys.
  A dict is an association list: the order is the insertion order and a lookup takes the
  first binding of a key.
\<close>

datatype json =
    JNull
  | JBool bool
  | JInt int
  | JFloat "64 word"
  | JString string
  | JArray "json list"
  | JObject "(string \<times> json) list"

type_synonym dict = "(string \<times> json) list"

text \<open>\<^verbatim>\<open>str(n)\<close> for an \<^verbatim>\<open>int\<close>, as an f-string formats it.\<close>

definition digit_char :: "nat \<Rightarrow> char" where
  "digit_char d =
     (if d = 0 then CHR ''0'' else if d = 1 then CHR ''1'' else if d = 2 then CHR ''2''
      else if d = 3 then CHR ''3'' else if d = 4 then CHR ''4'' else if d = 5 then CHR ''5''
      else if d = 6 then CHR ''6'' else if d = 7 then CHR ''7'' else if d = 8 then CHR ''8''
      else CHR ''9'')"

fun str_nat :: "nat \<Rightarrow> string" where
  "str_nat n = (if n < 10 then [digit_char n] else str_nat (n div 10) @ [digit_char (n mod 10)])"

declare str_nat.simps [simp del]

definition str_int :: "int \<Rightarrow> string" where
  "str_int i = (if i < 0 then CHR ''-'' # str_nat (nat (- i)) else str_nat (nat i))"

text \<open>
  \<^verbatim>\<open>str.strip()\<close> removes leading and trailing whitespace; a \<^typ>\<open>char\<close> stands for a code
  point below 256, where \<^verbatim>\<open>str.isspace\<close> holds of 9 to 13, 28 to 32, 133 and 160.
\<close>

definition isspace :: "char \<Rightarrow> bool" where
  "isspace c =
     (let n = (of_char c :: nat)
      in (9 \<le> n \<and> n \<le> 13) \<or> (28 \<le> n \<and> n \<le> 32) \<or> n = 133 \<or> n = 160)"

definition strip :: "string \<Rightarrow> string" where
  "strip s = rev (dropWhile isspace (rev (dropWhile isspace s)))"

section \<open>models.py: the host configuration\<close>

record HostConfig =
  hostname :: string
  port :: int
  protocol :: string
  verify_ssl :: bool

text \<open>\<^verbatim>\<open>return f"{self.protocol}://{self.hostname}:{self.port}"\<close>\<close>

definition get_base_url :: "HostConfig \<Rightarrow> string" where
  "get_base_url h = protocol h @ ''://'' @ hostname h @ '':'' @ str_int (port h)"

section \<open>The HTTP layer the client calls\<close>

text \<open>
  The exceptions of httpx that the client tells apart: \<^verbatim>\<open>ConnectError\<close>,
  \<^verbatim>\<open>TimeoutException\<close>, and any other exception of the library. Each carries the text
  that \<^verbatim>\<open>str(e)\<close> gives.
\<close>

datatype http_exc =
    ConnectError string
  | TimeoutException string
  | OtherHTTPError string

text \<open>
  An \<^verbatim>\<open>httpx.Response\<close> as the client reads it: the status code, the body as text
  (\<^verbatim>\<open>response.text\<close>; the client never looks at it, it is there to say what the server
  sent), what
  \<^verbatim>\<open>response.json()\<close> returns (\<open>None\<close> when it raises, whatever the exception), the
  lines that \<^verbatim>\<open>response.iter_lines()\<close> delivers, and the exception that ends the
  iteration when the transfer breaks off.
\<close>

record response =
  status_code :: int
  body :: string
  json_result :: "json option"
  iter_lines :: "string list"
  iter_lines_raises :: "http_exc option"

text \<open>
  \<^verbatim>\<open>httpx.Client\<close>: \<^verbatim>\<open>request(method, endpoint, json=...)\<close> and
  \<^verbatim>\<open>stream(method, endpoint, json=...)\<close> either raise or give a response. The server and
  the network are whatever these two functions are.
\<close>

record httpx_client =
  request :: "string \<Rightarrow> string \<Rightarrow> json option \<Rightarrow> http_exc + response"
  stream :: "string \<Rightarrow> string \<Rightarrow> json \<Rightarrow> http_exc + response"

text \<open>\<^verbatim>\<open>response.raise_for_status()\<close> raises \<^verbatim>\<open>HTTPStatusError\<close> unless the status is 2xx.\<close>

definition is_success :: "int \<Rightarrow> bool" where
  "is_success s = (200 \<le> s \<and> s \<le> 299)"

section \<open>client.py: exceptions\<close>

text \<open>
  What an operation can raise. \<open>OllamaClientError prefix cause\<close> is the exception built
  as \<^verbatim>\<open>OllamaClientError(f"<prefix>{e}")\<close>: the model keeps the literal prefix and the
  exception \<open>e\<close> that is formatted into it (one of httpx, one raised by
  \<^verbatim>\<open>response.json()\<close>, or pydantic's \<^verbatim>\<open>ValidationError\<close>). \<open>OllamaAPIError\<close> takes the
  message and the status code; the message is whatever the body's \<^verbatim>\<open>"error"\<close> entry holds.
  \<open>TypeError\<close>, \<open>RecursionError\<close> and \<open>ValueError\<close> are Python's own exceptions,
  \<open>ValidationError\<close> is pydantic's, and \<open>HTTPXError\<close> is an exception of httpx that no
  handler caught.
\<close>

datatype cause =
    FromHTTPX string
  | FromResponseJson
  | FromValidation

datatype error =
    OllamaClientError string cause
  | OllamaConnectionError string
  | OllamaAPIError json int
  | TypeError
  | ValidationError
  | HTTPXError http_exc
  | RecursionError
  | ValueError

text \<open>
  The exception classes and their bases as the class statements declare them
  (\<^verbatim>\<open>class OllamaConnectionError(OllamaClientError)\<close> and so on); \<open>mro\<close> lists a class with
  its ancestors up to \<^verbatim>\<open>Exception\<close>.
\<close>

datatype exc_class =
    cls_Exception
  | cls_OllamaClientError
  | cls_OllamaConnectionError
  | cls_OllamaAPIError
  | cls_TypeError
  | cls_ValueError
  | cls_ValidationError
  | cls_HTTPError
  | cls_RuntimeError
  | cls_RecursionError

fun mro :: "exc_class \<Rightarrow> exc_class list" where
  "mro cls_Exception = [cls_Exception]"
| "mro cls_OllamaClientError = [cls_OllamaClientError, cls_Exception]"
| "mro cls_OllamaConnectionError =
     [cls_OllamaConnectionError, cls_OllamaClientError, cls_Exception]"
| "mro cls_OllamaAPIError = [cls_OllamaAPIError, cls_OllamaClientError, cls_Exception]"
| "mro cls_TypeError = [cls_TypeError, cls_Exception]"
| "mro cls_ValueError = [cls_ValueError, cls_Exception]"
| "mro cls_ValidationError = [cls_ValidationError, cls_ValueError, cls_Exception]"
| "mro cls_HTTPError = [cls_HTTPError, cls_Exception]"
| "mro cls_RuntimeError = [cls_RuntimeError, cls_Exception]"
| "mro cls_RecursionError = [cls_RecursionError, cls_RuntimeError, cls_Exception]"

definition issubclass :: "exc_class \<Rightarrow> exc_class \<Rightarrow> bool" where
  "issubclass c d = (d \<in> set (mro c))"

fun class_of :: "error \<Rightarrow> exc_class" where
  "class_of (OllamaClientError p c) = cls_OllamaClientError"
| "class_of (OllamaConnectionError m) = cls_OllamaConnectionError"
| "class_of (OllamaAPIError m s) = cls_OllamaAPIError"
| "class_of TypeError = cls_TypeError"
| "class_of ValidationError = cls_ValidationError"
| "class_of (HTTPXError e) = cls_HTTPError"
| "class_of RecursionError = cls_RecursionError"
| "class_of ValueError = cls_ValueError"

definition isinstance :: "error \<Rightarrow> exc_class \<Rightarrow> bool" where
  "isinstance e c = issubclass (class_of e) c"

section \<open>client.py: the client and its two request functions\<close>

record OllamaClient =
  host_config :: HostConfig
  base_url :: string
  timeout :: int
  client :: httpx_client

text \<open>
  \<^verbatim>\<open>__init__\<close>: the base URL is computed once from the host configuration. The
  \<^verbatim>\<open>httpx.Client\<close> it creates is the argument \<open>net\<close>.
\<close>

definition OllamaClient_init :: "HostConfig \<Rightarrow> int \<Rightarrow> httpx_client \<Rightarrow> OllamaClient" where
  "OllamaClient_init hc t net =
     \<lparr>host_config = hc, base_url = get_base_url hc, timeout = t, client = net\<rparr>"

text \<open>
  The messages of the two handlers that raise \<^verbatim>\<open>OllamaConnectionError\<close>, the same in
  both request functions:
  \<^verbatim>\<open>f"Failed to connect to Ollama server at {self.base_url}: {e}"\<close> and
  \<^verbatim>\<open>f"Request to {self.base_url} timed out: {e}"\<close>.
\<close>

definition connect_msg :: "string \<Rightarrow> string \<Rightarrow> string" where
  "connect_msg url e = ''Failed to connect to Ollama server at '' @ url @ '': '' @ e"

definition timeout_msg :: "string \<Rightarrow> string \<Rightarrow> string" where
  "timeout_msg url e = ''Request to '' @ url @ '' timed out: '' @ e"

text \<open>
  The handler of \<^verbatim>\<open>httpx.HTTPStatusError\<close>, the same in both request functions:
  \<^verbatim>\<open>
  error_msg = f"API error: {e.response.status_code}"
  try:
      error_data = e.response.json()
      if "error" in error_data:
          error_msg = error_data["error"]
  except Exception:
      pass
  raise OllamaAPIError(error_msg, e.response.status_code)
  \<close>
  \<open>error_entry\<close> is the value assigned to \<^verbatim>\<open>error_msg\<close> inside the \<^verbatim>\<open>try\<close>, if any. Only
  a dict with the key gets there: on a list or a string the test \<^verbatim>\<open>in\<close> may hold, but
  indexing by a string raises \<^verbatim>\<open>TypeError\<close>; on a number, a boolean or \<^verbatim>\<open>None\<close> the test
  itself raises; and the inner handler swallows both.
\<close>

fun error_entry :: "json \<Rightarrow> json option" where
  "error_entry (JObject d) = map_of d ''error''"
| "error_entry (JArray xs) = None"
| "error_entry (JString s) = None"
| "error_entry (JInt i) = None"
| "error_entry (JFloat f) = None"
| "error_entry (JBool b) = None"
| "error_entry JNull = None"

definition fallback_msg :: "int \<Rightarrow> string" where
  "fallback_msg status = ''API error: '' @ str_int status"

definition error_msg :: "response \<Rightarrow> json" where
  "error_msg r =
     (case json_result r of
        None \<Rightarrow> JString (fallback_msg (status_code r))
      | Some error_data \<Rightarrow>
          (case error_entry error_data of
             Some m \<Rightarrow> m
           | None \<Rightarrow> JString (fallback_msg (status_code r))))"

definition raise_api_error :: "response \<Rightarrow> error" where
  "raise_api_error r = OllamaAPIError (error_msg r) (status_code r)"

text \<open>
  \<^verbatim>\<open>_make_request\<close>: the request, \<^verbatim>\<open>raise_for_status\<close>, \<^verbatim>\<open>response.json()\<close>, and the four
  handlers in their order. The last one, \<^verbatim>\<open>except Exception\<close>, takes every other
  exception of the \<^verbatim>\<open>try\<close> body: another failure of httpx, or whatever
  \<^verbatim>\<open>response.json()\<close> raises on a body it cannot decode.
\<close>

definition make_request ::
  "OllamaClient \<Rightarrow> string \<Rightarrow> string \<Rightarrow> json option \<Rightarrow> error + json" where
  "make_request self method endpoint json_data =
     (case request (client self) method endpoint json_data of
        Inl (ConnectError e) \<Rightarrow> Inl (OllamaConnectionError (connect_msg (base_url self) e))
      | Inl (TimeoutException e) \<Rightarrow> Inl (OllamaConnectionError (timeout_msg (base_url self) e))
      | Inl (OtherHTTPError e) \<Rightarrow> Inl (OllamaClientError ''Unexpected error: '' (FromHTTPX e))
      | Inr response \<Rightarrow>
          if is_success (status_code response)
          then (case json_result response of
                  Some data \<Rightarrow> Inr data
                | None \<Rightarrow> Inl (OllamaClientError ''Unexpected error: '' FromResponseJson))
          else Inl (raise_api_error response))"

text \<open>
  \<^verbatim>\<open>json.loads(line)\<close> on a line of text returns the parsed value or raises. Most
  lines that are not JSON raise \<^verbatim>\<open>JSONDecodeError\<close>; but brackets nested deeper than the
  interpreter's recursion limit raise \<^verbatim>\<open>RecursionError\<close>, and an integer of more digits
  than the interpreter's limit for integer strings (4300) raises a plain \<^verbatim>\<open>ValueError\<close>.
\<close>

datatype loads_outcome =
    Loaded json
  | RaisesJSONDecodeError
  | RaisesRecursionError
  | RaisesValueError

text \<open>
  The loop of \<^verbatim>\<open>_stream_request\<close>, with \<open>loads\<close> for \<^verbatim>\<open>json.loads\<close>. The handler takes
  \<^verbatim>\<open>JSONDecodeError\<close> only; another exception of \<^verbatim>\<open>json.loads\<close> ends the loop, and
  since the handlers around the loop are for exceptions of httpx, it leaves the generator.
  \<^verbatim>\<open>
  for line in response.iter_lines():
      if line.strip():
          try:
              yield json.loads(line)
          except json.JSONDecodeError:
              # Skip invalid JSON lines
              continue
  \<close>
  The result is the chunks yielded and the exception that ended the loop, if any.
\<close>

fun yield_lines ::
  "(string \<Rightarrow> loads_outcome) \<Rightarrow> string list \<Rightarrow> json list \<times> error option" where
  "yield_lines loads [] = ([], None)"
| "yield_lines loads (line # rest) =
     (if strip line \<noteq> []
      then (case loads line of
              Loaded chunk \<Rightarrow>
                (case yield_lines loads rest of (chunks, e) \<Rightarrow> (chunk # chunks, e))
            | RaisesJSONDecodeError \<Rightarrow> yield_lines loads rest
            | RaisesRecursionError \<Rightarrow> ([], Some RecursionError)
            | RaisesValueError \<Rightarrow> ([], Some ValueError))
      else yield_lines loads rest)"

text \<open>
  The handlers of \<^verbatim>\<open>_stream_request\<close> for an exception of httpx: there is no
  \<^verbatim>\<open>except Exception\<close> here, so any other exception leaves the generator as it is.
\<close>

fun stream_handler :: "OllamaClient \<Rightarrow> http_exc \<Rightarrow> error" where
  "stream_handler self (ConnectError e) = OllamaConnectionError (connect_msg (base_url self) e)"
| "stream_handler self (TimeoutException e) =
     OllamaConnectionError (timeout_msg (base_url self) e)"
| "stream_handler self (OtherHTTPError e) = HTTPXError (OtherHTTPError e)"

text \<open>
  \<^verbatim>\<open>_stream_request\<close>, a generator: the model gives the chunks it yields when it is
  consumed to its end, and the exception that ends it, if one does. When the status is
  not 2xx, the handler of \<^verbatim>\<open>HTTPStatusError\<close> runs on a streamed response whose body has
  not been read: there \<^verbatim>\<open>e.response.json()\<close> raises, the inner handler swallows that, and
  the message is always the fallback.
\<close>

definition stream_request ::
  "(string \<Rightarrow> loads_outcome) \<Rightarrow> OllamaClient \<Rightarrow> string \<Rightarrow> string \<Rightarrow> json
     \<Rightarrow> json list \<times> error option" where
  "stream_request loads self method endpoint json_data =
     (case stream (client self) method endpoint json_data of
        Inl e \<Rightarrow> ([], Some (stream_handler self e))
      | Inr response \<Rightarrow>
          if is_success (status_code response)
          then (case yield_lines loads (iter_lines response) of
                  (chunks, Some e) \<Rightarrow> (chunks, Some e)
                | (chunks, None) \<Rightarrow>
                    (chunks, map_option (stream_handler self) (iter_lines_raises response)))
          else ([], Some (OllamaAPIError (JString (fallback_msg (status_code response)))
                            (status_code response))))"

section \<open>The libraries behind the models\<close>

text \<open>
  The client calls \<^verbatim>\<open>json.loads\<close> and leaves the validation of scalar fields to
  pydantic. Neither is code of this repository, so they are parameters: \<open>json_loads\<close> says
  what \<^verbatim>\<open>json.loads\<close> does with a line, and each validator is \<open>None\<close> where pydantic
  rejects the value for a field of type \<^verbatim>\<open>str\<close>, \<^verbatim>\<open>int\<close>, \<^verbatim>\<open>bool\<close> or \<^verbatim>\<open>float\<close>, and
  the validated value otherwise.
\<close>

record pylib =
  json_loads :: "string \<Rightarrow> loads_outcome"
  validate_str :: "json \<Rightarrow> string option"
  validate_int :: "json \<Rightarrow> int option"
  validate_bool :: "json \<Rightarrow> bool option"
  validate_float :: "json \<Rightarrow> 64 word option"

text \<open>
  How a model class reads one field from the keyword arguments: a field without a
  default must be present; \<^verbatim>\<open>Optional[T] = None\<close> is \<open>None\<close> when the key is missing or
  holds \<^verbatim>\<open>None\<close>; a field with another default takes it when the key is missing. Keys
  that name no field are ignored.
\<close>

definition required :: "(json \<Rightarrow> 'a option) \<Rightarrow> dict \<Rightarrow> string \<Rightarrow> 'a option" where
  "required v d k = (case map_of d k of None \<Rightarrow> None | Some j \<Rightarrow> v j)"

definition optional :: "(json \<Rightarrow> 'a option) \<Rightarrow> dict \<Rightarrow> string \<Rightarrow> 'a option option" where
  "optional v d k =
     (case map_of d k of
        None \<Rightarrow> Some None
      | Some JNull \<Rightarrow> Some None
      | Some j \<Rightarrow> map_option Some (v j))"

definition defaulted :: "'a \<Rightarrow> (json \<Rightarrow> 'a option) \<Rightarrow> dict \<Rightarrow> string \<Rightarrow> 'a option" where
  "defaulted dflt v d k = (case map_of d k of None \<Rightarrow> Some dflt | Some j \<Rightarrow> v j)"

definition validate_list :: "(json \<Rightarrow> 'a option) \<Rightarrow> json \<Rightarrow> 'a list option" where
  "validate_list v j = (case j of JArray xs \<Rightarrow> those (map v xs) | _ \<Rightarrow> None)"

definition validate_dict :: "json \<Rightarrow> dict option" where
  "validate_dict j = (case j of JObject d \<Rightarrow> Some d | _ \<Rightarrow> None)"

definition validate_nested :: "(dict \<Rightarrow> 'a option) \<Rightarrow> json \<Rightarrow> 'a option" where
  "validate_nested v j = (case j of JObject d \<Rightarrow> v d | _ \<Rightarrow> None)"

text \<open>
  \<^verbatim>\<open>Model(**data)\<close>: unpacking needs a mapping, so anything but a dict raises
  \<^verbatim>\<open>TypeError\<close> before pydantic sees it; a dict is validated and gives the model or
  raises \<^verbatim>\<open>ValidationError\<close>.
\<close>

datatype 'a constructed = Built 'a | RaisesValidationError | RaisesTypeError

definition construct :: "(dict \<Rightarrow> 'a option) \<Rightarrow> json \<Rightarrow> 'a constructed" where
  "construct v data =
     (case data of
        JObject d \<Rightarrow> (case v d of Some x \<Rightarrow> Built x | None \<Rightarrow> RaisesValidationError)
      | _ \<Rightarrow> RaisesTypeError)"

text \<open>\<^verbatim>\<open>model_dump()\<close> keeps every field; a field that is \<^verbatim>\<open>None\<close> is dumped as \<^verbatim>\<open>None\<close>.\<close>

fun dump_optional :: "('a \<Rightarrow> json) \<Rightarrow> 'a option \<Rightarrow> json" where
  "dump_optional f None = JNull"
| "dump_optional f (Some x) = f x"

section \<open>models.py: the model classes\<close>

text \<open>
  One record per class, with the fields in the order of the class body. Several classes
  share field names (\<^verbatim>\<open>model\<close>, \<^verbatim>\<open>name\<close>, \<^verbatim>\<open>stream\<close>, \<^verbatim>\<open>done\<close>, ...), so each record
  prefixes its fields; the keys of the JSON objects are the names of the source. For a
  response class, \<open>validate_...\<close> is what pydantic does with the keyword arguments; for a
  request class, \<open>..._model_dump\<close> is \<^verbatim>\<open>model_dump()\<close>.
\<close>

record ModelDetails =
  md_parent_model :: "string option"
  md_format :: "string option"
  md_family :: "string option"
  md_families :: "string list option"
  md_parameter_size :: "string option"
  md_quantization_level :: "string option"

definition validate_ModelDetails :: "pylib \<Rightarrow> dict \<Rightarrow> ModelDetails option" where
  "validate_ModelDetails lib d = do {
     parent_model \<leftarrow> optional (validate_str lib) d ''parent_model'';
     format \<leftarrow> optional (validate_str lib) d ''format'';
     family \<leftarrow> optional (validate_str lib) d ''family'';
     families \<leftarrow> optional (validate_list (validate_str lib)) d ''families'';
     parameter_size \<leftarrow> optional (validate_str lib) d ''parameter_size'';
     quantization_level \<leftarrow> optional (validate_str lib) d ''quantization_level'';
     Some \<lparr>md_parent_model = parent_model, md_format = format, md_family = family,
           md_families = families, md_parameter_size = parameter_size,
           md_quantization_level = quantization_level\<rparr>
   }"

text \<open>
  \<^verbatim>\<open>ModelInfo\<close>: \<^verbatim>\<open>name: str\<close> has no default, \<^verbatim>\<open>model: str = ""\<close> has one.
\<close>

record ModelInfo =
  mi_name :: string
  mi_model :: string
  mi_modified_at :: string
  mi_size :: int
  mi_digest :: string
  mi_details :: "ModelDetails option"

definition validate_ModelInfo :: "pylib \<Rightarrow> dict \<Rightarrow> ModelInfo option" where
  "validate_ModelInfo lib d = do {
     name \<leftarrow> required (validate_str lib) d ''name'';
     model \<leftarrow> defaulted [] (validate_str lib) d ''model'';
     modified_at \<leftarrow> required (validate_str lib) d ''modified_at'';
     size \<leftarrow> required (validate_int lib) d ''size'';
     digest \<leftarrow> required (validate_str lib) d ''digest'';
     details \<leftarrow> optional (validate_nested (validate_ModelDetails lib)) d ''details'';
     Some \<lparr>mi_name = name, mi_model = model, mi_modified_at = modified_at, mi_size = size,
           mi_digest = digest, mi_details = details\<rparr>
   }"

text \<open>\<^verbatim>\<open>return self.name or self.model\<close>: the empty string is the only falsy \<^verbatim>\<open>str\<close>.\<close>

definition get_name :: "ModelInfo \<Rightarrow> string" where
  "get_name self = (if mi_name self \<noteq> [] then mi_name self else mi_model self)"

record GenerateRequest =
  gq_model :: string
  gq_prompt :: string
  gq_stream :: bool
  gq_system :: "string option"
  gq_template :: "string option"
  gq_context :: "int list option"
  gq_options :: "dict option"
  gq_format :: "string option"
  gq_raw :: bool
  gq_keep_alive :: "string option"

definition GenerateRequest_model_dump :: "GenerateRequest \<Rightarrow> dict" where
  "GenerateRequest_model_dump r =
     [(''model'', JString (gq_model r)),
      (''prompt'', JString (gq_prompt r)),
      (''stream'', JBool (gq_stream r)),
      (''system'', dump_optional JString (gq_system r)),
      (''template'', dump_optional JString (gq_template r)),
      (''context'', dump_optional (\<lambda>xs. JArray (map JInt xs)) (gq_context r)),
      (''options'', dump_optional JObject (gq_options r)),
      (''format'', dump_optional JString (gq_format r)),
      (''raw'', JBool (gq_raw r)),
      (''keep_alive'', dump_optional JString (gq_keep_alive r))]"

record GenerateResponse =
  gr_model :: string
  gr_created_at :: string
  gr_response :: string
  gr_done :: bool
  gr_context :: "int list option"
  gr_total_duration :: "int option"
  gr_load_duration :: "int option"
  gr_prompt_eval_count :: "int option"
  gr_prompt_eval_duration :: "int option"
  gr_eval_count :: "int option"
  gr_eval_duration :: "int option"

definition validate_GenerateResponse :: "pylib \<Rightarrow> dict \<Rightarrow> GenerateResponse option" where
  "validate_GenerateResponse lib d = do {
     model \<leftarrow> required (validate_str lib) d ''model'';
     created_at \<leftarrow> required (validate_str lib) d ''created_at'';
     response \<leftarrow> required (validate_str lib) d ''response'';
     done_flag \<leftarrow> required (validate_bool lib) d ''done'';
     context \<leftarrow> optional (validate_list (validate_int lib)) d ''context'';
     total_duration \<leftarrow> optional (validate_int lib) d ''total_duration'';
     load_duration \<leftarrow> optional (validate_int lib) d ''load_duration'';
     prompt_eval_count \<leftarrow> optional (validate_int lib) d ''prompt_eval_count'';
     prompt_eval_duration \<leftarrow> optional (validate_int lib) d ''prompt_eval_duration'';
     eval_count \<leftarrow> optional (validate_int lib) d ''eval_count'';
     eval_duration \<leftarrow> optional (validate_int lib) d ''eval_duration'';
     Some \<lparr>gr_model = model, gr_created_at = created_at, gr_response = response,
           gr_done = done_flag, gr_context = context, gr_total_duration = total_duration,
           gr_load_duration = load_duration, gr_prompt_eval_count = prompt_eval_count,
           gr_prompt_eval_duration = prompt_eval_duration, gr_eval_count = eval_count,
           gr_eval_duration = eval_duration\<rparr>
   }"

text \<open>\<^verbatim>\<open>role: Literal["system", "user", "assistant"]\<close>\<close>

datatype role = System | User | Assistant

definition validate_role :: "json \<Rightarrow> role option" where
  "validate_role j =
     (case j of
        JString s \<Rightarrow>
          if s = ''system'' then Some System
          else if s = ''user'' then Some User
          else if s = ''assistant'' then Some Assistant
          else None
      | _ \<Rightarrow> None)"

fun dump_role :: "role \<Rightarrow> json" where
  "dump_role System = JString ''system''"
| "dump_role User = JString ''user''"
| "dump_role Assistant = JString ''assistant''"

record ChatMessage =
  cm_role :: role
  cm_content :: string
  cm_images :: "string list option"

definition validate_ChatMessage :: "pylib \<Rightarrow> dict \<Rightarrow> ChatMessage option" where
  "validate_ChatMessage lib d = do {
     role \<leftarrow> required validate_role d ''role'';
     content \<leftarrow> required (validate_str lib) d ''content'';
     images \<leftarrow> optional (validate_list (validate_str lib)) d ''images'';
     Some \<lparr>cm_role = role, cm_content = content, cm_images = images\<rparr>
   }"

definition ChatMessage_model_dump :: "ChatMessage \<Rightarrow> dict" where
  "ChatMessage_model_dump m =
     [(''role'', dump_role (cm_role m)),
      (''content'', JString (cm_content m)),
      (''images'', dump_optional (\<lambda>xs. JArray (map JString xs)) (cm_images m))]"

record ChatRequest =
  cq_model :: string
  cq_messages :: "ChatMessage list"
  cq_stream :: bool
  cq_format :: "string option"
  cq_options :: "dict option"
  cq_template :: "string option"
  cq_keep_alive :: "string option"

definition ChatRequest_model_dump :: "ChatRequest \<Rightarrow> dict" where
  "ChatRequest_model_dump r =
     [(''model'', JString (cq_model r)),
      (''messages'', JArray (map (\<lambda>m. JObject (ChatMessage_model_dump m)) (cq_messages r))),
      (''stream'', JBool (cq_stream r)),
      (''format'', dump_optional JString (cq_format r)),
      (''options'', dump_optional JObject (cq_options r)),
      (''template'', dump_optional JString (cq_template r)),
      (''keep_alive'', dump_optional JString (cq_keep_alive r))]"

record ChatResponse =
  cr_model :: string
  cr_created_at :: string
  cr_message :: ChatMessage
  cr_done :: bool
  cr_total_duration :: "int option"
  cr_load_duration :: "int option"
  cr_prompt_eval_count :: "int option"
  cr_prompt_eval_duration :: "int option"
  cr_eval_count :: "int option"
  cr_eval_duration :: "int option"

definition validate_ChatResponse :: "pylib \<Rightarrow> dict \<Rightarrow> ChatResponse option" where
  "validate_ChatResponse lib d = do {
     model \<leftarrow> required (validate_str lib) d ''model'';
     created_at \<leftarrow> required (validate_str lib) d ''created_at'';
     message \<leftarrow> required (validate_nested (validate_ChatMessage lib)) d ''message'';
     done_flag \<leftarrow> required (validate_bool lib) d ''done'';
     total_duration \<leftarrow> optional (validate_int lib) d ''total_duration'';
     load_duration \<leftarrow> optional (validate_int lib) d ''load_duration'';
     prompt_eval_count \<leftarrow> optional (validate_int lib) d ''prompt_eval_count'';
     prompt_eval_duration \<leftarrow> optional (validate_int lib) d ''prompt_eval_duration'';
     eval_count \<leftarrow> optional (validate_int lib) d ''eval_count'';
     eval_duration \<leftarrow> optional (validate_int lib) d ''eval_duration'';
     Some \<lparr>cr_model = model, cr_created_at = created_at, cr_message = message,
           cr_done = done_flag, cr_total_duration = total_duration,
           cr_load_duration = load_duration, cr_prompt_eval_count = prompt_eval_count,
           cr_prompt_eval_duration = prompt_eval_duration, cr_eval_count = eval_count,
           cr_eval_duration = eval_duration\<rparr>
   }"

record PullRequest =
  plq_name :: string
  plq_insecure :: bool
  plq_stream :: bool

definition PullRequest_model_dump :: "PullRequest \<Rightarrow> dict" where
  "PullRequest_model_dump r =
     [(''name'', JString (plq_name r)),
      (''insecure'', JBool (plq_insecure r)),
      (''stream'', JBool (plq_stream r))]"

record PullResponse =
  plr_status :: string
  plr_digest :: "string option"
  plr_total :: "int option"
  plr_completed :: "int option"

definition validate_PullResponse :: "pylib \<Rightarrow> dict \<Rightarrow> PullResponse option" where
  "validate_PullResponse lib d = do {
     status \<leftarrow> required (validate_str lib) d ''status'';
     digest \<leftarrow> optional (validate_str lib) d ''digest'';
     total \<leftarrow> optional (validate_int lib) d ''total'';
     completed \<leftarrow> optional (validate_int lib) d ''completed'';
     Some \<lparr>plr_status = status, plr_digest = digest, plr_total = total,
           plr_completed = completed\<rparr>
   }"

record PushRequest =
  psq_name :: string
  psq_insecure :: bool
  psq_stream :: bool

definition PushRequest_model_dump :: "PushRequest \<Rightarrow> dict" where
  "PushRequest_model_dump r =
     [(''name'', JString (psq_name r)),
      (''insecure'', JBool (psq_insecure r)),
      (''stream'', JBool (psq_stream r))]"

record PushResponse =
  psr_status :: string
  psr_digest :: "string option"
  psr_total :: "int option"
  psr_completed :: "int option"

definition validate_PushResponse :: "pylib \<Rightarrow> dict \<Rightarrow> PushResponse option" where
  "validate_PushResponse lib d = do {
     status \<leftarrow> required (validate_str lib) d ''status'';
     digest \<leftarrow> optional (validate_str lib) d ''digest'';
     total \<leftarrow> optional (validate_int lib) d ''total'';
     completed \<leftarrow> optional (validate_int lib) d ''completed'';
     Some \<lparr>psr_status = status, psr_digest = digest, psr_total = total,
           psr_completed = completed\<rparr>
   }"

record DeleteRequest =
  dq_name :: string

definition DeleteRequest_model_dump :: "DeleteRequest \<Rightarrow> dict" where
  "DeleteRequest_model_dump r = [(''name'', JString (dq_name r))]"

record ShowRequest =
  sq_name :: string

definition ShowRequest_model_dump :: "ShowRequest \<Rightarrow> dict" where
  "ShowRequest_model_dump r = [(''name'', JString (sq_name r))]"

record ShowResponse =
  sr_modelfile :: "string option"
  sr_parameters :: "string option"
  sr_template :: "string option"
  sr_details :: "ModelDetails option"
  sr_model_info :: "dict option"

definition validate_ShowResponse :: "pylib \<Rightarrow> dict \<Rightarrow> ShowResponse option" where
  "validate_ShowResponse lib d = do {
     modelfile \<leftarrow> optional (validate_str lib) d ''modelfile'';
     parameters \<leftarrow> optional (validate_str lib) d ''parameters'';
     template \<leftarrow> optional (validate_str lib) d ''template'';
     details \<leftarrow> optional (validate_nested (validate_ModelDetails lib)) d ''details'';
     model_info \<leftarrow> optional validate_dict d ''model_info'';
     Some \<lparr>sr_modelfile = modelfile, sr_parameters = parameters, sr_template = template,
           sr_details = details, sr_model_info = model_info\<rparr>
   }"

record ListModelsResponse =
  lr_models :: "ModelInfo list"

definition validate_ListModelsResponse :: "pylib \<Rightarrow> dict \<Rightarrow> ListModelsResponse option" where
  "validate_ListModelsResponse lib d = do {
     models \<leftarrow> required (validate_list (validate_nested (validate_ModelInfo lib))) d ''models'';
     Some \<lparr>lr_models = models\<rparr>
   }"

record EmbeddingsRequest =
  eq_model :: string
  eq_prompt :: string
  eq_options :: "dict option"
  eq_keep_alive :: "string option"

definition EmbeddingsRequest_model_dump :: "EmbeddingsRequest \<Rightarrow> dict" where
  "EmbeddingsRequest_model_dump r =
     [(''model'', JString (eq_model r)),
      (''prompt'', JString (eq_prompt r)),
      (''options'', dump_optional JObject (eq_options r)),
      (''keep_alive'', dump_optional JString (eq_keep_alive r))]"

record EmbeddingsResponse =
  er_embedding :: "64 word list"

definition validate_EmbeddingsResponse :: "pylib \<Rightarrow> dict \<Rightarrow> EmbeddingsResponse option" where
  "validate_EmbeddingsResponse lib d = do {
     embedding \<leftarrow> required (validate_list (validate_float lib)) d ''embedding'';
     Some \<lparr>er_embedding = embedding\<rparr>
   }"

section \<open>client.py: the operations\<close>

text \<open>
  An operation with a \<^verbatim>\<open>stream\<close> flag returns a generator or a value. \<open>Generator ys e\<close>
  is a generator that, consumed to its end, yields \<open>ys\<close> and then stops, or raises \<open>e\<close>.
\<close>

datatype ('c, 'r) outcome =
    Generator "'c list" "error option"
  | Returned 'r
  | Raised error

fun raised :: "('c, 'r) outcome \<Rightarrow> error option" where
  "raised (Generator ys e) = e"
| "raised (Returned r) = None"
| "raised (Raised e) = Some e"

text \<open>
  The decoding of a unary response, the same in every operation but for the text:
  \<^verbatim>\<open>
  try:
      return Model(**data)
  except ValidationError as e:
      raise OllamaClientError(f"Failed to parse ...: {e}")
  \<close>
\<close>

definition decode_unary :: "string \<Rightarrow> (dict \<Rightarrow> 'a option) \<Rightarrow> json \<Rightarrow> error + 'a" where
  "decode_unary msg v data =
     (case construct v data of
        Built x \<Rightarrow> Inr x
      | RaisesValidationError \<Rightarrow> Inl (OllamaClientError msg FromValidation)
      | RaisesTypeError \<Rightarrow> Inl TypeError)"

text \<open>
  The inner \<^verbatim>\<open>generator()\<close> of a streaming operation, over the chunks of
  \<^verbatim>\<open>_stream_request\<close> and the way that generator ends:
  \<^verbatim>\<open>
  for chunk in self._stream_request(...):
      try:
          yield Model(**chunk)
      except ValidationError:
          continue
  \<close>
\<close>

fun typed_chunks ::
  "(dict \<Rightarrow> 'a option) \<Rightarrow> json list \<Rightarrow> error option \<Rightarrow> 'a list \<times> error option" where
  "typed_chunks v [] ending = ([], ending)"
| "typed_chunks v (chunk # rest) ending =
     (case construct v chunk of
        Built x \<Rightarrow> (case typed_chunks v rest ending of (ys, e) \<Rightarrow> (x # ys, e))
      | RaisesValidationError \<Rightarrow> typed_chunks v rest ending
      | RaisesTypeError \<Rightarrow> ([], Some TypeError))"

definition generator ::
  "(dict \<Rightarrow> 'a option) \<Rightarrow> json list \<times> error option \<Rightarrow> ('a, 'r) outcome" where
  "generator v s = (case typed_chunks v (fst s) (snd s) of (ys, e) \<Rightarrow> Generator ys e)"

definition list_models :: "pylib \<Rightarrow> OllamaClient \<Rightarrow> error + ModelInfo list" where
  "list_models lib self =
     (case make_request self ''GET'' ''/api/tags'' None of
        Inl e \<Rightarrow> Inl e
      | Inr data \<Rightarrow>
          map_sum id lr_models
            (decode_unary ''Failed to parse models list: '' (validate_ListModelsResponse lib) data))"

definition show_request :: "string \<Rightarrow> ShowRequest" where
  "show_request name = \<lparr>sq_name = name\<rparr>"

definition show_model :: "pylib \<Rightarrow> OllamaClient \<Rightarrow> string \<Rightarrow> error + ShowResponse" where
  "show_model lib self name =
     (case make_request self ''POST'' ''/api/show''
             (Some (JObject (ShowRequest_model_dump (show_request name)))) of
        Inl e \<Rightarrow> Inl e
      | Inr data \<Rightarrow>
          decode_unary ''Failed to parse model details: '' (validate_ShowResponse lib) data)"

definition pull_request :: "string \<Rightarrow> bool \<Rightarrow> bool \<Rightarrow> PullRequest" where
  "pull_request name stream_flag insecure =
     \<lparr>plq_name = name, plq_insecure = insecure, plq_stream = stream_flag\<rparr>"

definition pull_model ::
  "pylib \<Rightarrow> OllamaClient \<Rightarrow> string \<Rightarrow> bool \<Rightarrow> bool \<Rightarrow> (PullResponse, json) outcome" where
  "pull_model lib self name stream_flag insecure =
     (let payload = JObject (PullRequest_model_dump (pull_request name stream_flag insecure))
      in if stream_flag
         then generator (validate_PullResponse lib)
                (stream_request (json_loads lib) self ''POST'' ''/api/pull'' payload)
         else (case make_request self ''POST'' ''/api/pull'' (Some payload) of
                 Inl e \<Rightarrow> Raised e
               | Inr data \<Rightarrow> Returned data))"

definition push_request :: "string \<Rightarrow> bool \<Rightarrow> bool \<Rightarrow> PushRequest" where
  "push_request name stream_flag insecure =
     \<lparr>psq_name = name, psq_insecure = insecure, psq_stream = stream_flag\<rparr>"

definition push_model ::
  "pylib \<Rightarrow> OllamaClient \<Rightarrow> string \<Rightarrow> bool \<Rightarrow> bool \<Rightarrow> (PushResponse, json) outcome" where
  "push_model lib self name stream_flag insecure =
     (let payload = JObject (PushRequest_model_dump (push_request name stream_flag insecure))
      in if stream_flag
         then generator (validate_PushResponse lib)
                (stream_request (json_loads lib) self ''POST'' ''/api/push'' payload)
         else (case make_request self ''POST'' ''/api/push'' (Some payload) of
                 Inl e \<Rightarrow> Raised e
               | Inr data \<Rightarrow> Returned data))"

definition delete_request :: "string \<Rightarrow> DeleteRequest" where
  "delete_request name = \<lparr>dq_name = name\<rparr>"

definition delete_model :: "OllamaClient \<Rightarrow> string \<Rightarrow> error + unit" where
  "delete_model self name =
     (case make_request self ''DELETE'' ''/api/delete''
             (Some (JObject (DeleteRequest_model_dump (delete_request name)))) of
        Inl e \<Rightarrow> Inl e
      | Inr data \<Rightarrow> Inr ())"

text \<open>
  \<^verbatim>\<open>generate\<close> builds its request from its own arguments; \<^verbatim>\<open>format\<close>, \<^verbatim>\<open>raw\<close> and
  \<^verbatim>\<open>keep_alive\<close> are not among them and keep the defaults of the class.
\<close>

definition generate_request ::
  "string \<Rightarrow> string \<Rightarrow> bool \<Rightarrow> string option \<Rightarrow> string option \<Rightarrow> int list option
     \<Rightarrow> dict option \<Rightarrow> GenerateRequest" where
  "generate_request model prompt stream_flag system template context options =
     \<lparr>gq_model = model, gq_prompt = prompt, gq_stream = stream_flag, gq_system = system,
      gq_template = template, gq_context = context, gq_options = options,
      gq_format = None, gq_raw = False, gq_keep_alive = None\<rparr>"

definition generate ::
  "pylib \<Rightarrow> OllamaClient \<Rightarrow> string \<Rightarrow> string \<Rightarrow> bool \<Rightarrow> string option \<Rightarrow> string option
     \<Rightarrow> int list option \<Rightarrow> dict option \<Rightarrow> (GenerateResponse, GenerateResponse) outcome" where
  "generate lib self model prompt stream_flag system template context options =
     (let payload = JObject (GenerateRequest_model_dump
            (generate_request model prompt stream_flag system template context options))
      in if stream_flag
         then generator (validate_GenerateResponse lib)
                (stream_request (json_loads lib) self ''POST'' ''/api/generate'' payload)
         else (case make_request self ''POST'' ''/api/generate'' (Some payload) of
                 Inl e \<Rightarrow> Raised e
               | Inr data \<Rightarrow>
                   (case decode_unary ''Failed to parse generate response: ''
                           (validate_GenerateResponse lib) data of
                      Inl e \<Rightarrow> Raised e
                    | Inr r \<Rightarrow> Returned r)))"

text \<open>
  \<^verbatim>\<open>chat\<close> receives its messages as dicts, and \<^verbatim>\<open>ChatRequest(...)\<close> validates each into
  a \<^verbatim>\<open>ChatMessage\<close>: the request exists only if all of them pass. The constructor is
  called outside any \<^verbatim>\<open>try\<close>, so its \<^verbatim>\<open>ValidationError\<close> leaves \<^verbatim>\<open>chat\<close> as it is.
\<close>

definition chat_request ::
  "pylib \<Rightarrow> string \<Rightarrow> dict list \<Rightarrow> bool \<Rightarrow> dict option \<Rightarrow> ChatRequest option" where
  "chat_request lib model messages stream_flag options = do {
     msgs \<leftarrow> those (map (validate_ChatMessage lib) messages);
     Some \<lparr>cq_model = model, cq_messages = msgs, cq_stream = stream_flag, cq_format = None,
           cq_options = options, cq_template = None, cq_keep_alive = None\<rparr>
   }"

definition chat ::
  "pylib \<Rightarrow> OllamaClient \<Rightarrow> string \<Rightarrow> dict list \<Rightarrow> bool \<Rightarrow> dict option
     \<Rightarrow> (ChatResponse, ChatResponse) outcome" where
  "chat lib self model messages stream_flag options =
     (case chat_request lib model messages stream_flag options of
        None \<Rightarrow> Raised ValidationError
      | Some req \<Rightarrow>
          (let payload = JObject (ChatRequest_model_dump req)
           in if stream_flag
              then generator (validate_ChatResponse lib)
                     (stream_request (json_loads lib) self ''POST'' ''/api/chat'' payload)
              else (case make_request self ''POST'' ''/api/chat'' (Some payload) of
                      Inl e \<Rightarrow> Raised e
                    | Inr data \<Rightarrow>
                        (case decode_unary ''Failed to parse chat response: ''
                                (validate_ChatResponse lib) data of
                           Inl e \<Rightarrow> Raised e
                         | Inr r \<Rightarrow> Returned r))))"

definition embeddings_request :: "string \<Rightarrow> string \<Rightarrow> dict option \<Rightarrow> EmbeddingsRequest" where
  "embeddings_request model prompt options =
     \<lparr>eq_model = model, eq_prompt = prompt, eq_options = options, eq_keep_alive = None\<rparr>"

definition embeddings ::
  "pylib \<Rightarrow> OllamaClient \<Rightarrow> string \<Rightarrow> string \<Rightarrow> dict option \<Rightarrow> error + 64 word list" where
  "embeddings lib self model prompt options =
     (case make_request self ''POST'' ''/api/embeddings''
             (Some (JObject (EmbeddingsRequest_model_dump
                (embeddings_request model prompt options)))) of
        Inl e \<Rightarrow> Inl e
      | Inr data \<Rightarrow>
          map_sum id er_embedding
            (decode_unary ''Failed to parse embeddings response: ''
               (validate_EmbeddingsResponse lib) data))"

text \<open>
  \<^verbatim>\<open>
  try:
      self._make_request("GET", "/")
      return True
  except Exception:
      return False
  \<close>
\<close>

definition health_check :: "OllamaClient \<Rightarrow> bool" where
  "health_check self =
     (case make_request self ''GET'' ''/'' None of Inl e \<Rightarrow> False | Inr data \<Rightarrow> True)"

section \<open>utils.py: the model name check\<close>

text \<open>
  \<^verbatim>\<open>str.lower()\<close> on code points below 256: the letters A to Z, and the letters with
  code points 192 to 222 except 215, move up by 32.
\<close>

definition lower_char :: "char \<Rightarrow> char" where
  "lower_char c =
     (let n = (of_char c :: nat)
      in if (65 \<le> n \<and> n \<le> 90) \<or> (192 \<le> n \<and> n \<le> 222 \<and> n \<noteq> 215)
         then char_of (n + 32) else c)"

definition lower :: "string \<Rightarrow> string" where
  "lower s = map lower_char s"

text \<open>The character class \<^verbatim>\<open>[a-z0-9._:/-]\<close>.\<close>

definition in_class :: "char \<Rightarrow> bool" where
  "in_class c =
     (let n = (of_char c :: nat)
      in (97 \<le> n \<and> n \<le> 122) \<or> (48 \<le> n \<and> n \<le> 57)
         \<or> c = CHR ''.'' \<or> c = CHR ''_'' \<or> c = CHR '':'' \<or> c = CHR ''/'' \<or> c = CHR ''-'')"

text \<open>
  \<^verbatim>\<open>re.match(r"^[a-z0-9._:/-]+$", s)\<close>: the class, one or more times, from the start;
  then \<^verbatim>\<open>$\<close>, which in Python matches at the end of the string and also just before a
  newline that ends it. The class does not hold the newline, so the longest run of
  class characters is the only one after which \<^verbatim>\<open>$\<close> can match.
\<close>

definition re_match_pattern :: "string \<Rightarrow> bool" where
  "re_match_pattern s =
     (takeWhile in_class s \<noteq> []
      \<and> (dropWhile in_class s = [] \<or> dropWhile in_class s = [CHR 0x0A]))"

definition validate_model_name :: "string \<Rightarrow> bool" where
  "validate_model_name name = (if name = [] then False else re_match_pattern (lower name))"

section \<open>Mock servers\<close>

text \<open>
  Concrete hosts, servers and streams, at which the theorems below are instantiated. A
  server that answers every request with the response \<open>r\<close> is \<open>answering r\<close>, one that
  cannot be reached \<open>failing x\<close>. \<open>with_body s t j\<close> is a response read at once, with
  status \<open>s\<close> and body \<open>t\<close>, on which \<^verbatim>\<open>response.json()\<close> gives \<open>j\<close>; \<open>with_lines s ls\<close> is
  a streamed response that delivers the lines \<open>ls\<close>.
\<close>

definition example_host :: HostConfig where
  "example_host =
     \<lparr>hostname = ''example.com'', port = 443, protocol = ''https'', verify_ssl = True\<rparr>"

definition answering :: "response \<Rightarrow> httpx_client" where
  "answering r = \<lparr>request = (\<lambda>method endpoint json_data. Inr r),
                  stream = (\<lambda>method endpoint json_data. Inr r)\<rparr>"

definition failing :: "http_exc \<Rightarrow> httpx_client" where
  "failing x = \<lparr>request = (\<lambda>method endpoint json_data. Inl x),
                stream = (\<lambda>method endpoint json_data. Inl x)\<rparr>"

definition with_body :: "int \<Rightarrow> string \<Rightarrow> json option \<Rightarrow> response" where
  "with_body s t j =
     \<lparr>status_code = s, body = t, json_result = j, iter_lines = [], iter_lines_raises = None\<rparr>"

definition with_lines :: "int \<Rightarrow> string list \<Rightarrow> response" where
  "with_lines s ls =
     \<lparr>status_code = s, body = [], json_result = None, iter_lines = ls,
      iter_lines_raises = None\<rparr>"

text \<open>A line of a thousand opening brackets: not JSON, and too deep for the parser.\<close>

definition deep_line :: string where
  "deep_line = replicate 1000 (CHR ''['')"

text \<open>
  \<^verbatim>\<open>json.loads\<close> on the lines that the streams below deliver: two objects and a list
  are parsed, the thousand brackets raise \<^verbatim>\<open>RecursionError\<close>, and the other lines of
  these streams (blank ones, \<^verbatim>\<open>not json\<close>) raise \<^verbatim>\<open>JSONDecodeError\<close>.
\<close>

definition example_loads :: "string \<Rightarrow> loads_outcome" where
  \<open>example_loads line =
     (if line = deep_line then RaisesRecursionError
      else if line = ''{"status":"pulling manifest"}''
        then Loaded (JObject [(''status'', JString ''pulling manifest'')])
      else if line = ''{"status":"success"}''
        then Loaded (JObject [(''status'', JString ''success'')])
      else if line = ''[]'' then Loaded (JArray [])
      else RaisesJSONDecodeError)\<close>

definition example_lines :: "string list" where
  \<open>example_lines =
     [''{"status":"pulling manifest"}'', '''', ''not json'', ''   '', ''{"status":"success"}'']\<close>

definition pulling_client :: OllamaClient where
  "pulling_client = OllamaClient_init example_host 120 (answering (with_lines 200 example_lines))"

definition deep_line_client :: OllamaClient where
  \<open>deep_line_client = OllamaClient_init example_host 120
     (answering (with_lines 200 [deep_line, ''{"status":"success"}'']))\<close>





text \<open>
  An instance of the library for the examples: \<^verbatim>\<open>json.loads\<close> as above, and validators
  that accept the JSON value of the field's own type.
\<close>

definition example_lib :: pylib where
  "example_lib =
     \<lparr>json_loads = example_loads,
      validate_str = (\<lambda>j. case j of JString s \<Rightarrow> Some s | _ \<Rightarrow> None),
      validate_int = (\<lambda>j. case j of JInt i \<Rightarrow> Some i | _ \<Rightarrow> None),
      validate_bool = (\<lambda>j. case j of JBool b \<Rightarrow> Some b | _ \<Rightarrow> None),
      validate_float = (\<lambda>j. case j of JFloat f \<Rightarrow> Some f | _ \<Rightarrow> None)\<rparr>"

definition refusing_client :: OllamaClient where
  "refusing_client =
     OllamaClient_init example_host 120 (failing (ConnectError ''Connection refused''))"

text \<open>
  A server that answers 200 with a body of plain text, on which \<^verbatim>\<open>response.json()\<close>
  raises.
\<close>

definition plain_text_response :: response where
  "plain_text_response = with_body 200 ''Ollama is running'' None"

definition plain_text_client :: OllamaClient where
  "plain_text_client = OllamaClient_init example_host 120 (answering plain_text_response)"

definition success_response :: response where
  \<open>success_response =
     with_body 200 ''{"status":"success"}'' (Some (JObject [(''status'', JString ''success'')]))\<close>

definition success_client :: OllamaClient where
  "success_client = OllamaClient_init example_host 120 (answering success_response)"

text \<open>
  A server that answers 200 with a body that is one integer of 4301 digits: the body is
  JSON, and \<^verbatim>\<open>response.json()\<close> raises \<^verbatim>\<open>ValueError\<close> on it, the integer being longer than
  the interpreter converts.
\<close>

definition big_number_response :: response where
  "big_number_response = with_body 200 (replicate 4301 (CHR ''1'')) None"

definition big_number_client :: OllamaClient where
  "big_number_client = OllamaClient_init example_host 120 (answering big_number_response)"

definition array_line_client :: OllamaClient where
  \<open>array_line_client = OllamaClient_init example_host 120
     (answering (with_lines 200 [''[]'', ''{"status":"success"}'']))\<close>

definition model_only_client :: OllamaClient where
  \<open>model_only_client = OllamaClient_init example_host 120
     (answering (with_body 200
        (''{"models":[{"model":"llama2","modified_at":"2024-01-01T00:00:00Z",''
         @ ''"size":3825819519,"digest":"abc123"}]}'')
        (Some (JObject [(''models'', JArray [JObject
          [(''model'', JString ''llama2''),
           (''modified_at'', JString ''2024-01-01T00:00:00Z''),
           (''size'', JInt 3825819519),
           (''digest'', JString ''abc123'')]])]))))\<close>

definition name_only_client :: OllamaClient where
  \<open>name_only_client = OllamaClient_init example_host 120
     (answering (with_body 200
        (''{"models":[{"name":"llama2","size":3825819519,''
         @ ''"modified_at":"2024-01-01T00:00:00Z","digest":"abc123"}]}'')
        (Some (JObject [(''models'', JArray [JObject
          [(''name'', JString ''llama2''),
           (''size'', JInt 3825819519),
           (''modified_at'', JString ''2024-01-01T00:00:00Z''),
           (''digest'', JString ''abc123'')]])]))))\<close>

definition array_body_client :: OllamaClient where
  "array_body_client = OllamaClient_init example_host 120
     (answering (with_body 200 ''[]'' (Some (JArray []))))"

section \<open>Notions used in the statements\<close>

text \<open>The keys of a dumped request whose value is \<^verbatim>\<open>None\<close>, in the order of the fields.\<close>

definition null_keys :: "dict \<Rightarrow> string list" where
  "null_keys d = map fst (filter (\<lambda>kv. snd kv = JNull) d)"

text \<open>The value that \<^verbatim>\<open>json.loads\<close> returned, if it returned.\<close>

fun loaded :: "loads_outcome \<Rightarrow> json option" where
  "loaded (Loaded v) = Some v"
| "loaded RaisesJSONDecodeError = None"
| "loaded RaisesRecursionError = None"
| "loaded RaisesValueError = None"

text \<open>
  An ASCII letter of either case, a digit, or one of the characters \<^verbatim>\<open>. _ : / -\<close>.
\<close>

definition ascii_name_char :: "char \<Rightarrow> bool" where
  "ascii_name_char c =
     (let n = (of_char c :: nat)
      in (65 \<le> n \<and> n \<le> 90) \<or> (97 \<le> n \<and> n \<le> 122) \<or> (48 \<le> n \<and> n \<le> 57)
         \<or> c = CHR ''.'' \<or> c = CHR ''_'' \<or> c = CHR '':'' \<or> c = CHR ''/'' \<or> c = CHR ''-'')"

text \<open>
  A text that is one JSON number without sign, fraction or exponent: decimal digits, the
  first of them not \<^verbatim>\<open>0\<close>. By the grammar of JSON such a text is a JSON value.
\<close>

definition json_number_text :: "string \<Rightarrow> bool" where
  "json_number_text s =
     (s \<noteq> [] \<and> hd s \<noteq> CHR ''0''
      \<and> list_all (\<lambda>c. 48 \<le> (of_char c :: nat) \<and> (of_char c :: nat) \<le> 57) s)"

section \<open>The streaming request\<close>

lemma strip_nonblank: "(strip s \<noteq> []) = (\<exists>c\<in>set s. \<not> isspace c)"
proof -
  have "(\<exists>c\<in>set (dropWhile isspace s). \<not> isspace c) = (\<exists>c\<in>set s. \<not> isspace c)"
  proof
    assume "\<exists>c\<in>set (dropWhile isspace s). \<not> isspace c"
    then show "\<exists>c\<in>set s. \<not> isspace c"
      by (meson set_dropWhileD)
  next
    assume "\<exists>c\<in>set s. \<not> isspace c"
    then have ne: "dropWhile isspace s \<noteq> []"
      by (simp add: dropWhile_eq_Nil_conv)
    then have "\<not> isspace (hd (dropWhile isspace s))"
      by (simp add: hd_dropWhile)
    with ne show "\<exists>c\<in>set (dropWhile isspace s). \<not> isspace c"
      by (meson hd_in_set)
  qed
  then show ?thesis
    by (simp add: strip_def dropWhile_eq_Nil_conv)
qed

text \<open>
  What the loop does when \<^verbatim>\<open>json.loads\<close> raises nothing but \<^verbatim>\<open>JSONDecodeError\<close> on the
  lines of the stream: it yields the parsed values of the lines that are not blank and
  that parse, in their order, and ends without an exception.
\<close>

lemma yield_lines_decode_errors_only:
  assumes "\<forall>line\<in>set ls. strip line \<noteq> [] \<longrightarrow>
             loads line \<noteq> RaisesRecursionError \<and> loads line \<noteq> RaisesValueError"
  shows "yield_lines loads ls =
           (List.map_filter (\<lambda>line. if strip line \<noteq> [] then loaded (loads line) else None) ls,
            None)"
  using assms
proof (induction ls)
  case Nil
  then show ?case by (simp add: List.map_filter_simps)
next
  case (Cons line rest)
  then show ?case
    by (cases "loads line") (auto simp: List.map_filter_simps)
qed

lemma stream_request_decode_errors_only:
  assumes "stream (client self) method endpoint json_data = Inr response"
      and "is_success (status_code response)"
      and "\<forall>line\<in>set (iter_lines response). strip line \<noteq> [] \<longrightarrow>
             loads line \<noteq> RaisesRecursionError \<and> loads line \<noteq> RaisesValueError"
      and "iter_lines_raises response = None"
  shows "stream_request loads self method endpoint json_data =
           (List.map_filter (\<lambda>line. if strip line \<noteq> [] then loaded (loads line) else None)
              (iter_lines response), None)"
  using assms(1,2,4) yield_lines_decode_errors_only [OF assms(3)]
  by (simp add: stream_request_def)

text \<open>An exception of \<^verbatim>\<open>json.loads\<close> other than \<^verbatim>\<open>JSONDecodeError\<close> ends the loop.\<close>

lemma yield_lines_aborts:
  "strip line \<noteq> [] \<Longrightarrow> loads line = RaisesRecursionError
     \<Longrightarrow> yield_lines loads (line # rest) = ([], Some RecursionError)"
  "strip line \<noteq> [] \<Longrightarrow> loads line = RaisesValueError
     \<Longrightarrow> yield_lines loads (line # rest) = ([], Some ValueError)"
  by simp_all

lemma yield_lines_error:
  "snd (yield_lines loads ls) = Some e \<Longrightarrow> e = RecursionError \<or> e = ValueError"
  by (induction ls) (auto split: if_splits loads_outcome.splits prod.splits)

lemma not_deep_line: "length s \<noteq> 1000 \<Longrightarrow> (s = deep_line) = False"
  by (auto simp: deep_line_def)

lemma strip_deep_line: "strip deep_line \<noteq> []"
  by (simp add: strip_nonblank deep_line_def isspace_def)

lemma example_loads_deep_line: "example_loads deep_line = RaisesRecursionError"
  by (simp add: example_loads_def)

lemma example_loads_success:
  \<open>example_loads ''{"status":"success"}'' = Loaded (JObject [(''status'', JString ''success'')])\<close>
  by (simp add: example_loads_def not_deep_line)

lemma deep_line_stream:
  "stream_request example_loads deep_line_client method endpoint payload =
     ([], Some RecursionError)"
  by (simp add: stream_request_def deep_line_client_def OllamaClient_init_def answering_def
        with_lines_def is_success_def strip_deep_line example_loads_deep_line
        del: yield_lines.simps add: yield_lines_aborts)

text \<open>
  C1 at a stream whose first line is a thousand opening brackets, a line that is not
  JSON, followed by a valid line. \<^verbatim>\<open>json.loads\<close> raises \<^verbatim>\<open>RecursionError\<close> on the first
  line, the handler of \<^verbatim>\<open>JSONDecodeError\<close> does not take it, and the generator ends with
  that exception: the malformed line is not skipped, and the valid line after it is never
  yielded.
\<close>

theorem stream_request_deep_line_aborts:
  \<open>iter_lines (with_lines 200 [deep_line, ''{"status":"success"}'']) =
       [deep_line, ''{"status":"success"}'']
   \<and> example_loads deep_line = RaisesRecursionError
   \<and> example_loads ''{"status":"success"}'' =
       Loaded (JObject [(''status'', JString ''success'')])
   \<and> stream_request example_loads deep_line_client ''POST'' ''/api/pull'' JNull =
       ([], Some RecursionError)\<close>
  by (simp add: with_lines_def example_loads_deep_line example_loads_success deep_line_stream)

text \<open>
  The same request on a stream of objects, blank lines and text that is not JSON, where
  \<^verbatim>\<open>json.loads\<close> raises \<^verbatim>\<open>JSONDecodeError\<close> only.
\<close>

lemma stream_request_skips_blank_and_malformed:
  "stream_request example_loads pulling_client ''POST'' ''/api/pull'' payload =
     ([JObject [(''status'', JString ''pulling manifest'')],
       JObject [(''status'', JString ''success'')]], None)"
  by (simp add: stream_request_def pulling_client_def OllamaClient_init_def answering_def
        with_lines_def is_success_def example_loads_def example_lines_def strip_def isspace_def
        not_deep_line)

section \<open>Errors of a unary request\<close>




section \<open>Pull and push without streaming\<close>

text \<open>
  C10, as the code has it. With \<^verbatim>\<open>stream=False\<close>, \<^verbatim>\<open>pull_model\<close> and \<^verbatim>\<open>push_model\<close>
  return what \<^verbatim>\<open>_make_request\<close> returns: for a 2xx response whose body
  \<^verbatim>\<open>response.json()\<close> decodes, the decoded body itself, whatever its shape, and no
  exception.
\<close>

theorem pull_push_unary_return_raw:
  "(request (client self) ''POST'' ''/api/pull''
        (Some (JObject (PullRequest_model_dump (pull_request name False insecure)))) = Inr response
      \<and> is_success (status_code response) \<and> json_result response = Some data
      \<longrightarrow> pull_model lib self name False insecure = Returned data)
   \<and> (request (client self) ''POST'' ''/api/push''
        (Some (JObject (PushRequest_model_dump (push_request name False insecure)))) = Inr response'
      \<and> is_success (status_code response') \<and> json_result response' = Some data'
      \<longrightarrow> push_model lib self name False insecure = Returned data')"
  by (simp add: pull_model_def push_model_def make_request_def)

theorem pull_push_unary_return_raw_witness:
  "pull_model example_lib success_client ''llama2'' False False =
      Returned (JObject [(''status'', JString ''success'')])
   \<and> push_model example_lib success_client ''llama2'' False False =
      Returned (JObject [(''status'', JString ''success'')])"
proof -
  let ?r = "success_response"
  have h: "request (client success_client) m e d = Inr ?r" for m e d
    by (simp add: success_client_def OllamaClient_init_def answering_def)
  have s: "is_success (status_code ?r)"
    and j: "json_result ?r = Some (JObject [(''status'', JString ''success'')])"
    by (simp_all add: with_body_def success_response_def is_success_def)
  from pull_push_unary_return_raw [of success_client "''llama2''" False ?r
      "JObject [(''status'', JString ''success'')]" example_lib ?r
      "JObject [(''status'', JString ''success'')]"] h s j
  show ?thesis by simp
qed

lemma json_number_text_ones: "json_number_text (replicate 4301 (CHR ''1''))"
  by (simp add: json_number_text_def list_all_iff)

text \<open>
  A 2xx response whose body is valid JSON, one integer of 4301 digits:
  \<^verbatim>\<open>response.json()\<close> raises on it, the last handler of \<^verbatim>\<open>_make_request\<close> turns that into
  \<^verbatim>\<open>OllamaClientError\<close>, and both operations raise it.
\<close>

theorem pull_push_big_number_counterexample:
  "json_number_text (body big_number_response)
   \<and> is_success (status_code big_number_response)
   \<and> request (client big_number_client) ''POST'' ''/api/pull''
        (Some (JObject (PullRequest_model_dump (pull_request ''llama2'' False False))))
       = Inr big_number_response
   \<and> pull_model example_lib big_number_client ''llama2'' False False =
       Raised (OllamaClientError ''Unexpected error: '' FromResponseJson)
   \<and> push_model example_lib big_number_client ''llama2'' False False =
       Raised (OllamaClientError ''Unexpected error: '' FromResponseJson)"
proof -
  have b: "json_number_text (body big_number_response)"
    by (simp add: big_number_response_def with_body_def json_number_text_ones)
  have r: "request (client big_number_client) m e d = Inr big_number_response" for m e d
    by (simp add: big_number_client_def OllamaClient_init_def answering_def)
  have s: "is_success (status_code big_number_response)"
    and j: "json_result big_number_response = None"
    by (simp_all add: big_number_response_def with_body_def is_success_def)
  from r s j have "make_request big_number_client m e d =
      Inl (OllamaClientError ''Unexpected error: '' FromResponseJson)" for m e d
    by (simp add: make_request_def)
  then have "pull_model example_lib big_number_client ''llama2'' False False =
       Raised (OllamaClientError ''Unexpected error: '' FromResponseJson)"
    and "push_model example_lib big_number_client ''llama2'' False False =
       Raised (OllamaClientError ''Unexpected error: '' FromResponseJson)"
    by (simp_all add: pull_model_def push_model_def)
  with b r s show ?thesis by simp
qed

section \<open>Connection errors name the base URL\<close>

lemma sublist_connect_msg: "sublist url (connect_msg url e)"
  unfolding connect_msg_def by (rule sublist_appendI)

lemma sublist_timeout_msg: "sublist url (timeout_msg url e)"
  unfolding timeout_msg_def by (rule sublist_appendI)

lemma make_request_connection_error:
  assumes "make_request self method endpoint json_data = Inl (OllamaConnectionError msg)"
  shows "sublist (base_url self) msg"
proof (cases "request (client self) method endpoint json_data")
  case (Inl x)
  with assms show ?thesis
    by (cases x) (auto simp: make_request_def sublist_connect_msg sublist_timeout_msg)
next
  case (Inr r)
  with assms show ?thesis
    by (simp add: make_request_def raise_api_error_def split: if_splits option.splits)
qed

lemma stream_handler_connection_error:
  "stream_handler self x = OllamaConnectionError msg \<Longrightarrow> sublist (base_url self) msg"
  by (cases x) (auto simp: sublist_connect_msg sublist_timeout_msg)

lemma stream_request_connection_error:
  assumes "snd (stream_request loads self method endpoint json_data)
             = Some (OllamaConnectionError msg)"
  shows "sublist (base_url self) msg"
proof (cases "stream (client self) method endpoint json_data")
  case (Inl x)
  with assms show ?thesis
    by (simp add: stream_request_def stream_handler_connection_error)
next
  case (Inr r)
  show ?thesis
  proof (cases "is_success (status_code r)")
    case False
    with assms Inr show ?thesis by (simp add: stream_request_def)
  next
    case True
    obtain chunks e where y: "yield_lines loads (iter_lines r) = (chunks, e)"
      by (cases "yield_lines loads (iter_lines r)")
    show ?thesis
    proof (cases e)
      case None
      with assms Inr True y
      have "map_option (stream_handler self) (iter_lines_raises r)
              = Some (OllamaConnectionError msg)"
        by (simp add: stream_request_def)
      then show ?thesis
        by (auto dest: stream_handler_connection_error)
    next
      case (Some err)
      with assms Inr True y have "err = OllamaConnectionError msg"
        by (simp add: stream_request_def)
      moreover from y Some yield_lines_error [of loads "iter_lines r" err]
      have "err = RecursionError \<or> err = ValueError" by simp
      ultimately show ?thesis by auto
    qed
  qed
qed

lemma typed_chunks_connection_error:
  "snd (typed_chunks v chunks ending) = Some (OllamaConnectionError msg)
     \<Longrightarrow> ending = Some (OllamaConnectionError msg)"
  by (induction chunks) (auto split: constructed.splits prod.splits)

lemma generator_connection_error:
  assumes "raised (generator v s) = Some (OllamaConnectionError msg)"
  shows "snd s = Some (OllamaConnectionError msg)"
proof -
  obtain ys e where t: "typed_chunks v (fst s) (snd s) = (ys, e)"
    by (cases "typed_chunks v (fst s) (snd s)")
  with assms have "e = Some (OllamaConnectionError msg)"
    by (simp add: generator_def)
  with t typed_chunks_connection_error [of v "fst s" "snd s" msg] show ?thesis
    by simp
qed

lemma decode_unary_connection_error:
  "decode_unary p v data \<noteq> Inl (OllamaConnectionError msg)"
  by (simp add: decode_unary_def split: constructed.splits)

lemma map_sum_decode_connection_error:
  "map_sum id f (decode_unary p v data) \<noteq> Inl (OllamaConnectionError msg)"
  using decode_unary_connection_error [of p v data msg]
  by (cases "decode_unary p v data") auto

lemma list_models_connection_error:
  assumes "list_models lib self = Inl (OllamaConnectionError msg)"
  shows "sublist (base_url self) msg"
proof (cases "make_request self ''GET'' ''/api/tags'' None")
  case (Inl e)
  with assms have "make_request self ''GET'' ''/api/tags'' None = Inl (OllamaConnectionError msg)"
    by (simp add: list_models_def)
  then show ?thesis by (rule make_request_connection_error)
next
  case (Inr data)
  with assms have "map_sum id lr_models (decode_unary ''Failed to parse models list: ''
      (validate_ListModelsResponse lib) data) = Inl (OllamaConnectionError msg)"
    by (simp add: list_models_def)
  with map_sum_decode_connection_error show ?thesis by blast
qed

lemma show_model_connection_error:
  assumes "show_model lib self name = Inl (OllamaConnectionError msg)"
  shows "sublist (base_url self) msg"
proof (cases "make_request self ''POST'' ''/api/show''
                (Some (JObject (ShowRequest_model_dump (show_request name))))")
  case (Inl e)
  with assms have "make_request self ''POST'' ''/api/show''
      (Some (JObject (ShowRequest_model_dump (show_request name)))) = Inl (OllamaConnectionError msg)"
    by (simp add: show_model_def)
  then show ?thesis by (rule make_request_connection_error)
next
  case (Inr data)
  with assms have "decode_unary ''Failed to parse model details: ''
      (validate_ShowResponse lib) data = Inl (OllamaConnectionError msg)"
    by (simp add: show_model_def)
  with decode_unary_connection_error show ?thesis by blast
qed

lemma delete_model_connection_error:
  assumes "delete_model self name = Inl (OllamaConnectionError msg)"
  shows "sublist (base_url self) msg"
proof (cases "make_request self ''DELETE'' ''/api/delete''
                (Some (JObject (DeleteRequest_model_dump (delete_request name))))")
  case (Inl e)
  with assms have "make_request self ''DELETE'' ''/api/delete''
      (Some (JObject (DeleteRequest_model_dump (delete_request name)))) = Inl (OllamaConnectionError msg)"
    by (simp add: delete_model_def)
  then show ?thesis by (rule make_request_connection_error)
next
  case (Inr data)
  with assms show ?thesis by (simp add: delete_model_def)
qed

lemma embeddings_connection_error:
  assumes "embeddings lib self model prompt options = Inl (OllamaConnectionError msg)"
  shows "sublist (base_url self) msg"
proof (cases "make_request self ''POST'' ''/api/embeddings''
             (Some (JObject (EmbeddingsRequest_model_dump
                (embeddings_request model prompt options))))")
  case (Inl e)
  with assms have "make_request self ''POST'' ''/api/embeddings''
             (Some (JObject (EmbeddingsRequest_model_dump
                (embeddings_request model prompt options)))) = Inl (OllamaConnectionError msg)"
    by (simp add: embeddings_def)
  then show ?thesis by (rule make_request_connection_error)
next
  case (Inr data)
  with assms have "map_sum id er_embedding (decode_unary ''Failed to parse embeddings response: ''
               (validate_EmbeddingsResponse lib) data) = Inl (OllamaConnectionError msg)"
    by (simp add: embeddings_def)
  with map_sum_decode_connection_error show ?thesis by blast
qed

lemma streamed_connection_error:
  assumes "raised (generator v (stream_request loads self method endpoint payload))
             = Some (OllamaConnectionError msg)"
  shows "sublist (base_url self) msg"
  using assms generator_connection_error stream_request_connection_error by blast

lemma returned_raw_connection_error:
  assumes "raised (case make_request self method endpoint payload of
                     Inl e \<Rightarrow> Raised e | Inr data \<Rightarrow> Returned data)
             = Some (OllamaConnectionError msg)"
  shows "sublist (base_url self) msg"
proof (cases "make_request self method endpoint payload")
  case (Inl e)
  with assms have "make_request self method endpoint payload = Inl (OllamaConnectionError msg)"
    by simp
  then show ?thesis by (rule make_request_connection_error)
next
  case (Inr data)
  with assms show ?thesis by simp
qed

lemma returned_decoded_connection_error:
  assumes "raised (case make_request self method endpoint payload of
                     Inl e \<Rightarrow> Raised e
                   | Inr data \<Rightarrow> (case decode_unary p v data of
                                   Inl e \<Rightarrow> Raised e | Inr r \<Rightarrow> Returned r))
             = Some (OllamaConnectionError msg)"
  shows "sublist (base_url self) msg"
proof (cases "make_request self method endpoint payload")
  case (Inl e)
  with assms have "make_request self method endpoint payload = Inl (OllamaConnectionError msg)"
    by simp
  then show ?thesis by (rule make_request_connection_error)
next
  case (Inr data)
  with assms decode_unary_connection_error [of p v data msg] show ?thesis
    by (cases "decode_unary p v data") simp_all
qed

lemma pull_model_connection_error:
  assumes "raised (pull_model lib self name stream_flag insecure)
             = Some (OllamaConnectionError msg)"
  shows "sublist (base_url self) msg"
proof (cases stream_flag)
  case True
  with assms show ?thesis
    unfolding pull_model_def Let_def by (simp only: if_True) (rule streamed_connection_error)
next
  case False
  with assms show ?thesis
    unfolding pull_model_def Let_def by (simp only: if_False) (rule returned_raw_connection_error)
qed

lemma push_model_connection_error:
  assumes "raised (push_model lib self name stream_flag insecure)
             = Some (OllamaConnectionError msg)"
  shows "sublist (base_url self) msg"
proof (cases stream_flag)
  case True
  with assms show ?thesis
    unfolding push_model_def Let_def by (simp only: if_True) (rule streamed_connection_error)
next
  case False
  with assms show ?thesis
    unfolding push_model_def Let_def by (simp only: if_False) (rule returned_raw_connection_error)
qed

lemma generate_connection_error:
  assumes "raised (generate lib self model prompt stream_flag system template context options)
             = Some (OllamaConnectionError msg)"
  shows "sublist (base_url self) msg"
proof (cases stream_flag)
  case True
  with assms show ?thesis
    unfolding generate_def Let_def by (simp only: if_True) (rule streamed_connection_error)
next
  case False
  with assms show ?thesis
    unfolding generate_def Let_def
    by (simp only: if_False) (rule returned_decoded_connection_error)
qed

lemma chat_connection_error:
  assumes "raised (chat lib self model messages stream_flag options)
             = Some (OllamaConnectionError msg)"
  shows "sublist (base_url self) msg"
proof (cases "chat_request lib model messages stream_flag options")
  case None
  with assms show ?thesis by (simp add: chat_def)
next
  case (Some req)
  show ?thesis
  proof (cases stream_flag)
    case True
    with assms Some show ?thesis
      unfolding chat_def Let_def
      by (simp only: if_True option.case) (rule streamed_connection_error)
  next
    case False
    with assms Some show ?thesis
      unfolding chat_def Let_def
      by (simp only: if_False option.case) (rule returned_decoded_connection_error)
  qed
qed


text \<open>
  C7. For a client built from a host configuration, the base URL is
  \<^verbatim>\<open>protocol://hostname:port\<close>, and every \<^verbatim>\<open>OllamaConnectionError\<close> that an operation
  raises, in either mode, has a message that contains it.
\<close>

theorem connection_error_names_base_url:
  assumes "self = OllamaClient_init hc t net"
  shows "get_base_url hc = protocol hc @ ''://'' @ hostname hc @ '':'' @ str_int (port hc)
    \<and> (list_models lib self = Inl (OllamaConnectionError msg)
          \<longrightarrow> sublist (get_base_url hc) msg)
    \<and> (show_model lib self name = Inl (OllamaConnectionError msg)
          \<longrightarrow> sublist (get_base_url hc) msg)
    \<and> (raised (pull_model lib self name stream_flag insecure) = Some (OllamaConnectionError msg)
          \<longrightarrow> sublist (get_base_url hc) msg)
    \<and> (raised (push_model lib self name stream_flag insecure) = Some (OllamaConnectionError msg)
          \<longrightarrow> sublist (get_base_url hc) msg)
    \<and> (delete_model self name = Inl (OllamaConnectionError msg)
          \<longrightarrow> sublist (get_base_url hc) msg)
    \<and> (raised (generate lib self model prompt stream_flag system template ctx options)
            = Some (OllamaConnectionError msg)
          \<longrightarrow> sublist (get_base_url hc) msg)
    \<and> (raised (chat lib self model messages stream_flag options)
            = Some (OllamaConnectionError msg)
          \<longrightarrow> sublist (get_base_url hc) msg)
    \<and> (embeddings lib self model prompt options = Inl (OllamaConnectionError msg)
          \<longrightarrow> sublist (get_base_url hc) msg)"
proof -
  have url: "base_url self = get_base_url hc"
    using assms by (simp add: OllamaClient_init_def)
  have "get_base_url hc = protocol hc @ ''://'' @ hostname hc @ '':'' @ str_int (port hc)"
    by (simp only: get_base_url_def)
  moreover note list_models_connection_error [of lib self msg]
    show_model_connection_error [of lib self name msg]
    pull_model_connection_error [of lib self name stream_flag insecure msg]
    push_model_connection_error [of lib self name stream_flag insecure msg]
    delete_model_connection_error [of self name msg]
    generate_connection_error [of lib self model prompt stream_flag system template ctx options msg]
    chat_connection_error [of lib self model messages stream_flag options msg]
    embeddings_connection_error [of lib self model prompt options msg]
  ultimately show ?thesis
    unfolding url by blast
qed

lemma get_base_url_example: "get_base_url example_host = ''https://example.com:443''"
  by (simp add: get_base_url_def example_host_def str_int_def str_nat.simps digit_char_def)

lemma refusing_request:
  "make_request refusing_client method endpoint json_data =
     Inl (OllamaConnectionError (connect_msg ''https://example.com:443'' ''Connection refused''))"
  by (simp add: make_request_def refusing_client_def OllamaClient_init_def failing_def
        get_base_url_example)

lemma refusing_stream:
  "stream_request loads refusing_client method endpoint json_data =
     ([], Some (OllamaConnectionError
                  (connect_msg ''https://example.com:443'' ''Connection refused'')))"
  by (simp add: stream_request_def refusing_client_def OllamaClient_init_def failing_def
        get_base_url_example)

theorem connection_error_names_base_url_witness:
  "list_models example_lib refusing_client =
       Inl (OllamaConnectionError (connect_msg ''https://example.com:443'' ''Connection refused''))
   \<and> show_model example_lib refusing_client ''llama2'' =
       Inl (OllamaConnectionError (connect_msg ''https://example.com:443'' ''Connection refused''))
   \<and> raised (pull_model example_lib refusing_client ''llama2'' True False) =
       Some (OllamaConnectionError (connect_msg ''https://example.com:443'' ''Connection refused''))
   \<and> raised (push_model example_lib refusing_client ''llama2'' True False) =
       Some (OllamaConnectionError (connect_msg ''https://example.com:443'' ''Connection refused''))
   \<and> delete_model refusing_client ''llama2'' =
       Inl (OllamaConnectionError (connect_msg ''https://example.com:443'' ''Connection refused''))
   \<and> raised (generate example_lib refusing_client ''llama2'' ''hi'' True None None None None) =
       Some (OllamaConnectionError (connect_msg ''https://example.com:443'' ''Connection refused''))
   \<and> raised (chat example_lib refusing_client ''llama2'' [] True None) =
       Some (OllamaConnectionError (connect_msg ''https://example.com:443'' ''Connection refused''))
   \<and> embeddings example_lib refusing_client ''llama2'' ''hi'' None =
       Inl (OllamaConnectionError (connect_msg ''https://example.com:443'' ''Connection refused''))
   \<and> sublist ''https://example.com:443''
         (connect_msg ''https://example.com:443'' ''Connection refused'')"
proof -
  let ?e = "OllamaConnectionError (connect_msg ''https://example.com:443'' ''Connection refused'')"
  have r1: "list_models example_lib refusing_client = Inl ?e"
    by (simp add: list_models_def refusing_request)
  have r2: "show_model example_lib refusing_client ''llama2'' = Inl ?e"
    by (simp add: show_model_def refusing_request)
  have r3: "raised (pull_model example_lib refusing_client ''llama2'' True False) = Some ?e"
    by (simp add: pull_model_def generator_def refusing_stream)
  have r4: "raised (push_model example_lib refusing_client ''llama2'' True False) = Some ?e"
    by (simp add: push_model_def generator_def refusing_stream)
  have r5: "delete_model refusing_client ''llama2'' = Inl ?e"
    by (simp add: delete_model_def refusing_request)
  have r6: "raised (generate example_lib refusing_client ''llama2'' ''hi'' True None None None None)
              = Some ?e"
    by (simp add: generate_def generator_def refusing_stream)
  have r7: "raised (chat example_lib refusing_client ''llama2'' [] True None) = Some ?e"
    by (simp add: chat_def chat_request_def generator_def refusing_stream)
  have r8: "embeddings example_lib refusing_client ''llama2'' ''hi'' None = Inl ?e"
    by (simp add: embeddings_def refusing_request)
  have "refusing_client
          = OllamaClient_init example_host 120 (failing (ConnectError ''Connection refused''))"
    by (simp only: refusing_client_def)
  from connection_error_names_base_url [OF this, of example_lib
      "connect_msg ''https://example.com:443'' ''Connection refused''"] r1
  have "sublist (get_base_url example_host)
          (connect_msg ''https://example.com:443'' ''Connection refused'')"
    by blast
  then have "sublist ''https://example.com:443''
         (connect_msg ''https://example.com:443'' ''Connection refused'')"
    by (simp only: get_base_url_example)
  with r1 r2 r3 r4 r5 r6 r7 r8 show ?thesis by blast
qed


section \<open>The health check\<close>

text \<open>
  What \<^verbatim>\<open>health_check\<close> computes: it returns a boolean whatever the server does, true
  exactly when \<^verbatim>\<open>GET /\<close> is answered with a 2xx status and a body that
  \<^verbatim>\<open>response.json()\<close> decodes.
\<close>

lemma health_check_true_iff:
  "health_check self =
     (\<exists>r data. request (client self) ''GET'' ''/'' None = Inr r
                \<and> is_success (status_code r) \<and> json_result r = Some data)"
proof (cases "request (client self) ''GET'' ''/'' None")
  case (Inl x)
  then show ?thesis by (cases x) (simp_all add: health_check_def make_request_def)
next
  case (Inr r)
  then show ?thesis
    by (cases "json_result r") (simp_all add: health_check_def make_request_def raise_api_error_def)
qed

lemma health_check_false_on_failure:
  "request (client self) ''GET'' ''/'' None = Inl x \<Longrightarrow> \<not> health_check self"
  "request (client self) ''GET'' ''/'' None = Inr r \<Longrightarrow> \<not> is_success (status_code r)
     \<Longrightarrow> \<not> health_check self"
  by (simp_all add: health_check_true_iff)

text \<open>
  C4 at a server that is reachable and answers \<^verbatim>\<open>GET /\<close> with status 200 and a body of
  plain text. \<^verbatim>\<open>response.json()\<close> raises inside \<^verbatim>\<open>_make_request\<close>, its last handler
  turns that into \<^verbatim>\<open>OllamaClientError\<close>, and \<^verbatim>\<open>health_check\<close> returns \<^verbatim>\<open>False\<close> for a 2xx
  response, against its docstring (\<^verbatim>\<open>True if server is reachable, False otherwise\<close>).
\<close>

theorem health_check_false_on_2xx_plain_text:
  "request (client plain_text_client) ''GET'' ''/'' None = Inr plain_text_response
   \<and> status_code plain_text_response = 200
   \<and> is_success (status_code plain_text_response)
   \<and> body plain_text_response = ''Ollama is running''
   \<and> health_check plain_text_client = False"
  by (simp add: plain_text_client_def plain_text_response_def OllamaClient_init_def
        answering_def with_body_def is_success_def health_check_def make_request_def)

section \<open>The request payloads\<close>

text \<open>
  C3, as the code has it. \<^verbatim>\<open>model_dump()\<close> drops nothing: the payload of every
  request has one entry for each field of its class, in the order of the class, and the
  optional fields that the caller did not supply are present with the value \<^verbatim>\<open>None\<close>,
  which goes over the wire as \<^verbatim>\<open>null\<close>. For \<^verbatim>\<open>generate\<close>, \<^verbatim>\<open>chat\<close> and
  \<^verbatim>\<open>embeddings\<close> these are the optional arguments left out and the fields the operation
  never sets (\<^verbatim>\<open>format\<close>, \<^verbatim>\<open>template\<close>, \<^verbatim>\<open>keep_alive\<close>); the requests of \<^verbatim>\<open>pull\<close>, \<^verbatim>\<open>push\<close>,
  \<^verbatim>\<open>show\<close> and \<^verbatim>\<open>delete\<close> have no optional field and no \<^verbatim>\<open>null\<close>.
\<close>

theorem absent_optionals_dumped_as_null:
  "null_keys (GenerateRequest_model_dump
       (generate_request model prompt stream_flag system template ctx options)) =
     (if system = None then [''system''] else []) @ (if template = None then [''template''] else [])
     @ (if ctx = None then [''context''] else []) @ (if options = None then [''options''] else [])
     @ [''format'', ''keep_alive'']
   \<and> (chat_request lib model messages stream_flag options = Some req \<longrightarrow>
        null_keys (ChatRequest_model_dump req) =
          [''format''] @ (if options = None then [''options''] else [])
          @ [''template'', ''keep_alive''])
   \<and> null_keys (EmbeddingsRequest_model_dump (embeddings_request model prompt options)) =
        (if options = None then [''options''] else []) @ [''keep_alive'']
   \<and> null_keys (PullRequest_model_dump (pull_request name stream_flag insecure)) = []
   \<and> null_keys (PushRequest_model_dump (push_request name stream_flag insecure)) = []
   \<and> null_keys (ShowRequest_model_dump (show_request name)) = []
   \<and> null_keys (DeleteRequest_model_dump (delete_request name)) = []
   \<and> map fst (GenerateRequest_model_dump
         (generate_request model prompt stream_flag system template ctx options)) =
        [''model'', ''prompt'', ''stream'', ''system'', ''template'', ''context'', ''options'',
         ''format'', ''raw'', ''keep_alive'']
   \<and> (chat_request lib model messages stream_flag options = Some req \<longrightarrow>
        map fst (ChatRequest_model_dump req) =
          [''model'', ''messages'', ''stream'', ''format'', ''options'', ''template'',
           ''keep_alive''])
   \<and> map fst (EmbeddingsRequest_model_dump (embeddings_request model prompt options)) =
        [''model'', ''prompt'', ''options'', ''keep_alive'']
   \<and> map fst (PullRequest_model_dump (pull_request name stream_flag insecure)) =
        [''name'', ''insecure'', ''stream'']
   \<and> map fst (PushRequest_model_dump (push_request name stream_flag insecure)) =
        [''name'', ''insecure'', ''stream'']
   \<and> map fst (ShowRequest_model_dump (show_request name)) = [''name'']
   \<and> map fst (DeleteRequest_model_dump (delete_request name)) = [''name'']"
proof -
  have g: "null_keys (GenerateRequest_model_dump
       (generate_request model prompt stream_flag system template ctx options)) =
     (if system = None then [''system''] else []) @ (if template = None then [''template''] else [])
     @ (if ctx = None then [''context''] else []) @ (if options = None then [''options''] else [])
     @ [''format'', ''keep_alive'']"
    by (cases system; cases template; cases ctx; cases options)
       (simp_all add: null_keys_def GenerateRequest_model_dump_def generate_request_def)
  have c: "null_keys (ChatRequest_model_dump req) =
          [''format''] @ (if options = None then [''options''] else [])
          @ [''template'', ''keep_alive'']"
    if "chat_request lib model messages stream_flag options = Some req"
  proof -
    from that obtain msgs where "req = \<lparr>cq_model = model, cq_messages = msgs,
        cq_stream = stream_flag, cq_format = None, cq_options = options, cq_template = None,
        cq_keep_alive = None\<rparr>"
      by (auto simp: chat_request_def split: bind_splits)
    then show ?thesis
      by (cases options) (simp_all add: null_keys_def ChatRequest_model_dump_def)
  qed
  have e: "null_keys (EmbeddingsRequest_model_dump (embeddings_request model prompt options)) =
        (if options = None then [''options''] else []) @ [''keep_alive'']"
    by (cases options) (simp_all add: null_keys_def EmbeddingsRequest_model_dump_def embeddings_request_def)
  have p: "null_keys (PullRequest_model_dump (pull_request name stream_flag insecure)) = []"
    by (simp add: null_keys_def PullRequest_model_dump_def)
  have q: "null_keys (PushRequest_model_dump (push_request name stream_flag insecure)) = []"
    by (simp add: null_keys_def PushRequest_model_dump_def)
  have s: "null_keys (ShowRequest_model_dump (show_request name)) = []"
    by (simp add: null_keys_def ShowRequest_model_dump_def)
  have d: "null_keys (DeleteRequest_model_dump (delete_request name)) = []"
    by (simp add: null_keys_def DeleteRequest_model_dump_def)
  have kg: "map fst (GenerateRequest_model_dump
         (generate_request model prompt stream_flag system template ctx options)) =
        [''model'', ''prompt'', ''stream'', ''system'', ''template'', ''context'', ''options'',
         ''format'', ''raw'', ''keep_alive'']"
    by (simp add: GenerateRequest_model_dump_def)
  have kc: "map fst (ChatRequest_model_dump req) =
          [''model'', ''messages'', ''stream'', ''format'', ''options'', ''template'',
           ''keep_alive'']"
    by (simp add: ChatRequest_model_dump_def)
  have ke: "map fst (EmbeddingsRequest_model_dump (embeddings_request model prompt options)) =
        [''model'', ''prompt'', ''options'', ''keep_alive'']"
    by (simp add: EmbeddingsRequest_model_dump_def)
  have kp: "map fst (PullRequest_model_dump (pull_request name stream_flag insecure)) =
        [''name'', ''insecure'', ''stream'']"
    by (simp add: PullRequest_model_dump_def)
  have kq: "map fst (PushRequest_model_dump (push_request name stream_flag insecure)) =
        [''name'', ''insecure'', ''stream'']"
    by (simp add: PushRequest_model_dump_def)
  have ks: "map fst (ShowRequest_model_dump (show_request name)) = [''name'']"
    by (simp add: ShowRequest_model_dump_def)
  have kd: "map fst (DeleteRequest_model_dump (delete_request name)) = [''name'']"
    by (simp add: DeleteRequest_model_dump_def)
  from g c e p q s d kg kc ke kp kq ks kd show ?thesis by blast
qed

theorem absent_optionals_dumped_as_null_witness:
  "chat_request example_lib ''llama2'' [[(''role'', JString ''user''), (''content'', JString ''hi'')]]
       False None =
     Some \<lparr>cq_model = ''llama2'',
           cq_messages = [\<lparr>cm_role = User, cm_content = ''hi'', cm_images = None\<rparr>],
           cq_stream = False, cq_format = None, cq_options = None, cq_template = None,
           cq_keep_alive = None\<rparr>
   \<and> null_keys (ChatRequest_model_dump
         \<lparr>cq_model = ''llama2'',
           cq_messages = [\<lparr>cm_role = User, cm_content = ''hi'', cm_images = None\<rparr>],
           cq_stream = False, cq_format = None, cq_options = None, cq_template = None,
           cq_keep_alive = None\<rparr>) = [''format'', ''options'', ''template'', ''keep_alive'']
   \<and> map fst (ChatRequest_model_dump
         \<lparr>cq_model = ''llama2'',
           cq_messages = [\<lparr>cm_role = User, cm_content = ''hi'', cm_images = None\<rparr>],
           cq_stream = False, cq_format = None, cq_options = None, cq_template = None,
           cq_keep_alive = None\<rparr>) =
        [''model'', ''messages'', ''stream'', ''format'', ''options'', ''template'',
         ''keep_alive'']"
proof -
  have h: "chat_request example_lib ''llama2''
       [[(''role'', JString ''user''), (''content'', JString ''hi'')]] False None =
     Some \<lparr>cq_model = ''llama2'',
           cq_messages = [\<lparr>cm_role = User, cm_content = ''hi'', cm_images = None\<rparr>],
           cq_stream = False, cq_format = None, cq_options = None, cq_template = None,
           cq_keep_alive = None\<rparr>"
    by (simp add: chat_request_def validate_ChatMessage_def required_def optional_def
          validate_role_def example_lib_def)
  from absent_optionals_dumped_as_null [of "''llama2''" _ False _ _ _ None example_lib
     "[[(''role'', JString ''user''), (''content'', JString ''hi'')]]"] h
  show ?thesis by simp
qed

text \<open>
  The payload of \<^verbatim>\<open>generate("llama2", "hi")\<close>, with no optional argument supplied: six
  of its ten entries are \<^verbatim>\<open>null\<close>.
\<close>

theorem generate_payload_null_counterexample:
  "GenerateRequest_model_dump (generate_request ''llama2'' ''hi'' True None None None None) =
     [(''model'', JString ''llama2''), (''prompt'', JString ''hi''), (''stream'', JBool True),
      (''system'', JNull), (''template'', JNull), (''context'', JNull), (''options'', JNull),
      (''format'', JNull), (''raw'', JBool False), (''keep_alive'', JNull)]
   \<and> null_keys (GenerateRequest_model_dump
         (generate_request ''llama2'' ''hi'' True None None None None)) \<noteq> []"
  by (simp add: GenerateRequest_model_dump_def generate_request_def null_keys_def)

section \<open>The model name check\<close>

lemma char_eq_nat: "(c = d) = ((of_char c :: nat) = of_char d)"
  by (simp add: of_char_eq_iff)

lemma of_char_lower_char:
  "(of_char (lower_char c) :: nat) =
     (if (65 \<le> (of_char c :: nat) \<and> (of_char c :: nat) \<le> 90)
         \<or> (192 \<le> (of_char c :: nat) \<and> (of_char c :: nat) \<le> 222 \<and> (of_char c :: nat) \<noteq> 215)
      then of_char c + 32 else of_char c)"
  by (simp add: lower_char_def Let_def of_char_of)

lemma in_class_nat:
  "in_class c =
     ((97 \<le> (of_char c :: nat) \<and> (of_char c :: nat) \<le> 122)
      \<or> (48 \<le> (of_char c :: nat) \<and> (of_char c :: nat) \<le> 57)
      \<or> (of_char c :: nat) \<in> {46, 95, 58, 47, 45})"
  by (auto simp: in_class_def Let_def char_eq_nat [of c])

lemma ascii_name_char_nat:
  "ascii_name_char c =
     ((65 \<le> (of_char c :: nat) \<and> (of_char c :: nat) \<le> 90)
      \<or> (97 \<le> (of_char c :: nat) \<and> (of_char c :: nat) \<le> 122)
      \<or> (48 \<le> (of_char c :: nat) \<and> (of_char c :: nat) \<le> 57)
      \<or> (of_char c :: nat) \<in> {46, 95, 58, 47, 45})"
  by (auto simp: ascii_name_char_def Let_def char_eq_nat [of c])

lemma in_class_lower_char: "in_class (lower_char c) = ascii_name_char c"
  unfolding in_class_nat ascii_name_char_nat of_char_lower_char
  using nat_of_char_less_256 [of c] by auto

lemma lower_char_newline: "lower_char c = CHR 0x0A \<Longrightarrow> c = CHR 0x0A"
  unfolding char_eq_nat [of _ "CHR 0x0A"] of_char_lower_char
  by (auto split: if_splits)

lemma not_in_class_newline: "\<not> in_class (CHR 0x0A)"
  by (simp add: in_class_nat)

lemma re_match_pattern_all:
  assumes "\<forall>c\<in>set s. in_class c"
  shows "re_match_pattern s = (s \<noteq> [])"
proof -
  from assms have t: "takeWhile in_class s = s" and d: "dropWhile in_class s = []"
    by simp_all
  show ?thesis unfolding re_match_pattern_def t d by simp
qed

lemma re_match_pattern_not_all:
  assumes "\<not> (\<forall>c\<in>set s. in_class c)" and "\<not> suffix [CHR 0x0A] s"
  shows "\<not> re_match_pattern s"
proof
  assume "re_match_pattern s"
  then have "dropWhile in_class s = [] \<or> dropWhile in_class s = [CHR 0x0A]"
    by (simp add: re_match_pattern_def)
  moreover from assms(1) have "dropWhile in_class s \<noteq> []"
    by (simp add: dropWhile_eq_Nil_conv)
  ultimately have "dropWhile in_class s = [CHR 0x0A]" by blast
  then have "s = takeWhile in_class s @ [CHR 0x0A]"
    by (metis takeWhile_dropWhile_id)
  then have "suffix [CHR 0x0A] s"
    by (metis suffixI)
  with assms(2) show False by simp
qed

lemma suffix_newline_lower:
  assumes "suffix [CHR 0x0A] (lower name)"
  shows "suffix [CHR 0x0A] name"
proof -
  from assms obtain p where p: "map lower_char name = p @ [CHR 0x0A]"
    by (auto simp: lower_def suffix_def)
  then have ne: "name \<noteq> []" by auto
  then have "name = butlast name @ [last name]" by simp
  moreover from p ne have "lower_char (last name) = CHR 0x0A"
    by (metis last_map last_snoc)
  then have "last name = CHR 0x0A" by (rule lower_char_newline)
  ultimately show ?thesis by (metis suffixI)
qed

text \<open>
  C8, as the code has it. The name is lowercased before it is matched, so upper case
  letters pass as well: a name that does not end in a newline is valid exactly when it is
  not empty and consists of ASCII letters of either case, digits and the characters
  \<^verbatim>\<open>. _ : / -\<close>.
\<close>

theorem validate_model_name_any_case:
  assumes "\<not> suffix [CHR 0x0A] name"
  shows "validate_model_name name = (name \<noteq> [] \<and> (\<forall>c\<in>set name. ascii_name_char c))"
proof (cases "\<forall>c\<in>set name. ascii_name_char c")
  case True
  then have "\<forall>c\<in>set (lower name). in_class c"
    by (simp add: lower_def in_class_lower_char)
  then have "re_match_pattern (lower name) = (lower name \<noteq> [])"
    by (rule re_match_pattern_all)
  with True show ?thesis by (auto simp: validate_model_name_def lower_def)
next
  case False
  then have "\<not> (\<forall>c\<in>set (lower name). in_class c)"
    by (simp add: lower_def in_class_lower_char)
  moreover from assms suffix_newline_lower have "\<not> suffix [CHR 0x0A] (lower name)" by blast
  ultimately have "\<not> re_match_pattern (lower name)" by (rule re_match_pattern_not_all)
  with False show ?thesis by (simp add: validate_model_name_def)
qed

lemma not_suffix_Llama2: "\<not> suffix [CHR 0x0A] ''Llama2''"
  by (simp add: suffix_def append_eq_Cons_conv)

theorem validate_model_name_any_case_witness:
  "\<not> suffix [CHR 0x0A] ''Llama2'' \<and> validate_model_name ''Llama2''"
  using validate_model_name_any_case [OF not_suffix_Llama2] not_suffix_Llama2
  by (simp add: ascii_name_char_nat)

text \<open>
  \<^verbatim>\<open>"Llama2"\<close> is accepted although its first letter is not in the class
  \<^verbatim>\<open>[a-z0-9._:/-]\<close>.
\<close>

theorem validate_model_name_uppercase_counterexample:
  "validate_model_name ''Llama2'' \<and> \<not> list_all in_class ''Llama2''"
  by (simp add: validate_model_name_def lower_def re_match_pattern_def in_class_nat
        of_char_lower_char)

text \<open>
  A name that ends in a newline: \<^verbatim>\<open>$\<close> matches before it, and the name is accepted.
\<close>

lemma lower_char_newline_id: "lower_char (CHR 0x0A) = CHR 0x0A"
  by (simp add: lower_char_def)

lemma validate_model_name_trailing_newline:
  "validate_model_name (''llama2'' @ [CHR 0x0A])"
  by (simp add: validate_model_name_def lower_def re_match_pattern_def in_class_lower_char
        ascii_name_char_nat takeWhile_map dropWhile_map comp_def lower_char_newline_id
        not_in_class_newline)

section \<open>Typed chunks of a stream\<close>

text \<open>
  What the inner generator does with the chunks of the stream: every chunk it yields is
  the validated model of a dict of the stream, and a dict that fails validation is
  skipped. A chunk that is not a dict ends the generator with \<^verbatim>\<open>TypeError\<close>.
\<close>

lemma typed_chunks_validated:
  "x \<in> set (fst (typed_chunks v chunks ending))
     \<Longrightarrow> \<exists>d. JObject d \<in> set chunks \<and> v d = Some x"
proof (induction chunks)
  case Nil
  then show ?case by simp
next
  case (Cons chunk rest)
  show ?case
  proof (cases "construct v chunk")
    case (Built y)
    then obtain d where d: "chunk = JObject d" "v d = Some y"
      by (auto simp: construct_def split: json.splits option.splits)
    from Built Cons.prems have "x = y \<or> x \<in> set (fst (typed_chunks v rest ending))"
      by (auto split: prod.splits)
    with d Cons.IH show ?thesis by auto
  next
    case RaisesValidationError
    with Cons show ?thesis by auto
  next
    case RaisesTypeError
    with Cons.prems show ?thesis by simp
  qed
qed

lemma typed_chunks_drops_invalid_dict:
  "v d = None \<Longrightarrow> typed_chunks v (JObject d # rest) ending = typed_chunks v rest ending"
  by (simp add: construct_def)

lemma typed_chunks_not_a_dict:
  "\<forall>d. chunk \<noteq> JObject d \<Longrightarrow> typed_chunks v (chunk # rest) ending = ([], Some TypeError)"
  by (cases chunk) (simp_all add: construct_def)

lemma array_line_stream:
  \<open>stream_request example_loads array_line_client ''POST'' ''/api/pull'' payload =
     ([JArray [], JObject [(''status'', JString ''success'')]], None)\<close>
  by (simp add: stream_request_def array_line_client_def OllamaClient_init_def answering_def
        with_lines_def is_success_def example_loads_def strip_def isspace_def not_deep_line)

text \<open>
  C5 at a stream whose first line is \<^verbatim>\<open>[]\<close>, a line that is JSON and not an object,
  followed by a valid progress line. \<^verbatim>\<open>PullResponse(**chunk)\<close> raises \<^verbatim>\<open>TypeError\<close> on the
  list, the handler of \<^verbatim>\<open>ValidationError\<close> does not take it, and the generator ends with
  that exception before the second line is read.
\<close>

theorem pull_model_array_line_aborts:
  "pull_model (lib\<lparr>json_loads := example_loads\<rparr>) array_line_client ''llama2'' True False =
     Generator [] (Some TypeError)"
  by (simp add: pull_model_def generator_def array_line_stream construct_def)

text \<open>
  The operation on the stream that starts with a thousand brackets: the exception of
  \<^verbatim>\<open>json.loads\<close> passes through the inner generator.
\<close>

lemma pull_model_deep_line_aborts:
  "pull_model (lib\<lparr>json_loads := example_loads\<rparr>) deep_line_client ''llama2'' True False =
     Generator [] (Some RecursionError)"
  by (simp add: pull_model_def generator_def deep_line_stream)

text \<open>The same operation on a stream of objects, blank lines and text that is not JSON.\<close>

lemma pull_model_streams_progress:
  "pull_model example_lib pulling_client ''llama2'' True False =
     Generator [\<lparr>plr_status = ''pulling manifest'', plr_digest = None, plr_total = None,
                  plr_completed = None\<rparr>,
                \<lparr>plr_status = ''success'', plr_digest = None, plr_total = None,
                  plr_completed = None\<rparr>] None"
proof -
  have loads: "json_loads example_lib = example_loads"
    and str: "validate_str example_lib (JString s) = Some s" for s
    by (simp_all add: example_lib_def)
  show ?thesis
    by (simp add: pull_model_def generator_def loads str stream_request_skips_blank_and_malformed construct_def
          validate_PullResponse_def required_def optional_def)
qed

section \<open>The name of a listed model\<close>

lemma validate_ModelInfo_needs_name:
  "map_of d ''name'' = None \<Longrightarrow> validate_ModelInfo lib d = None"
  by (simp add: validate_ModelInfo_def required_def)

lemma get_name_resolution:
  "get_name m = (if mi_name m \<noteq> [] then mi_name m else mi_model m)"
  by (simp add: get_name_def)

lemma list_models_name_only:
  "list_models example_lib name_only_client =
     Inr [\<lparr>mi_name = ''llama2'', mi_model = [], mi_modified_at = ''2024-01-01T00:00:00Z'',
           mi_size = 3825819519, mi_digest = ''abc123'', mi_details = None\<rparr>]
   \<and> get_name \<lparr>mi_name = ''llama2'', mi_model = [], mi_modified_at = ''2024-01-01T00:00:00Z'',
           mi_size = 3825819519, mi_digest = ''abc123'', mi_details = None\<rparr> = ''llama2''"
  by (simp add: list_models_def make_request_def name_only_client_def OllamaClient_init_def
        answering_def with_body_def is_success_def decode_unary_def construct_def
        validate_ListModelsResponse_def validate_list_def validate_nested_def
        validate_ModelInfo_def required_def optional_def defaulted_def example_lib_def
        get_name_def)

text \<open>
  C6 at a payload that carries the name under \<^verbatim>\<open>"model"\<close> and has no \<^verbatim>\<open>"name"\<close>: the
  field \<^verbatim>\<open>name\<close> of \<^verbatim>\<open>ModelInfo\<close> has no default, the validation fails, and
  \<^verbatim>\<open>list_models\<close> raises \<^verbatim>\<open>OllamaClientError\<close> instead of returning a model whose name
  resolves to \<^verbatim>\<open>"llama2"\<close>.
\<close>

theorem list_models_model_only_fails:
  "list_models lib model_only_client =
     Inl (OllamaClientError ''Failed to parse models list: '' FromValidation)"
  by (simp add: list_models_def make_request_def model_only_client_def OllamaClient_init_def
        answering_def with_body_def is_success_def decode_unary_def construct_def
        validate_ListModelsResponse_def validate_list_def validate_nested_def
        validate_ModelInfo_needs_name required_def)

section \<open>The classes of the exceptions raised\<close>

lemma error_subclasses:
  "issubclass cls_OllamaConnectionError cls_OllamaClientError
   \<and> issubclass cls_OllamaAPIError cls_OllamaClientError"
  by (simp add: issubclass_def)

lemma make_request_raises_client_errors:
  assumes "make_request self method endpoint json_data = Inl err"
  shows "isinstance err cls_OllamaClientError"
proof (cases "request (client self) method endpoint json_data")
  case (Inl x)
  with assms show ?thesis
    by (cases x) (auto simp: make_request_def isinstance_def issubclass_def)
next
  case (Inr r)
  with assms show ?thesis
    by (auto simp: make_request_def raise_api_error_def isinstance_def issubclass_def
             split: if_splits option.splits)
qed

text \<open>
  C9 at a 2xx response to \<^verbatim>\<open>GET /api/tags\<close> whose body is the JSON array \<^verbatim>\<open>[]\<close>:
  \<^verbatim>\<open>ListModelsResponse(**data)\<close> raises \<^verbatim>\<open>TypeError\<close>, which is not a subclass of
  \<^verbatim>\<open>OllamaClientError\<close> and which no handler of \<^verbatim>\<open>list_models\<close> takes.
\<close>

theorem list_models_array_body_type_error:
  "list_models lib array_body_client = Inl TypeError
   \<and> \<not> isinstance TypeError cls_OllamaClientError"
  by (simp add: list_models_def make_request_def array_body_client_def OllamaClient_init_def
        answering_def with_body_def is_success_def decode_unary_def construct_def
        isinstance_def issubclass_def)

text \<open>
  \<^verbatim>\<open>chat\<close> with a message whose role is not one of the three literals: the
  \<^verbatim>\<open>ValidationError\<close> of the request leaves the operation in either mode.
\<close>

lemma chat_bad_role_validation_error:
  "chat lib self ''llama2'' [[(''role'', JString ''tool''), (''content'', JString ''x'')]]
       stream_flag None = Raised ValidationError
   \<and> \<not> isinstance ValidationError cls_OllamaClientError"
  by (simp add: chat_def chat_request_def validate_ChatMessage_def required_def
        validate_role_def isinstance_def issubclass_def)

end
